theory Spec2Isabelle
  imports Main "HOL-Library.AList" "HOL-Library.Sublist"
begin

section \<open>Python values used by the release scripts\<close>

text \<open>
  The two scripts are \<^verbatim>\<open>version.py\<close> (the version bumper) and
  \<^verbatim>\<open>debug-tools/watch.py\<close> (the watcher). A Python \<^verbatim>\<open>str\<close> is a
  \<^typ>\<open>string\<close>, one \<^typ>\<open>char\<close> per code point below 256; a Python \<^verbatim>\<open>int\<close> is
  an \<^typ>\<open>int\<close> (the interpreter's configurable limit on the number of digits in a
  conversion between \<^verbatim>\<open>int\<close> and \<^verbatim>\<open>str\<close> is not modelled).
\<close>

subsection \<open>Exceptions\<close>

datatype value_error =
    InvalidLiteral string    \<comment> \<open>\<^verbatim>\<open>int(s)\<close>: invalid literal for int() with base 10\<close>
  | NotEnoughValues nat      \<comment> \<open>not enough values to unpack (expected 3, got k)\<close>
  | TooManyValues            \<comment> \<open>too many values to unpack (expected 3)\<close>
  | InvalidVersionType       \<comment> \<open>Invalid version type. Use 'major', 'minor', 'patch', or 'force'.\<close>

datatype error =
    FileNotFoundError string
  | JSONDecodeError
  | TypeError
  | KeyError string
  | AttributeError
  | ValueError value_error
  | GitCommandError
  | OtherError string        \<comment> \<open>any other exception of an external call\<close>

definition bindE :: "error + 'a \<Rightarrow> ('a \<Rightarrow> error + 'b) \<Rightarrow> error + 'b" where
  "bindE r f = (case r of Inl e \<Rightarrow> Inl e | Inr x \<Rightarrow> f x)"

subsection \<open>\<^verbatim>\<open>str.split\<close>, \<^verbatim>\<open>int\<close> and \<^verbatim>\<open>str\<close> of an integer\<close>

text \<open>\<^verbatim>\<open>s.split(sep)\<close> for a one-character separator: every occurrence of the
  separator ends a part, empty parts are kept, and the result is never empty.\<close>

fun split_acc :: "char \<Rightarrow> string \<Rightarrow> string \<Rightarrow> string list" where
  "split_acc sep cur [] = [cur]"
| "split_acc sep cur (c # cs) =
     (if c = sep then cur # split_acc sep [] cs else split_acc sep (cur @ [c]) cs)"

definition split :: "string \<Rightarrow> char \<Rightarrow> string list" where
  "split s sep = split_acc sep [] s"

definition is_digit :: "char \<Rightarrow> bool" where
  "is_digit c = (48 \<le> (of_char c :: nat) \<and> (of_char c :: nat) \<le> 57)"

definition digit_val :: "char \<Rightarrow> nat" where
  "digit_val c = of_char c - 48"

text \<open>The characters \<^verbatim>\<open>int\<close> strips from both ends of its argument: tab, line feed,
  vertical tab, form feed, carriage return, space, next line and no-break space.\<close>

definition is_space :: "char \<Rightarrow> bool" where
  "is_space c = ((of_char c :: nat) \<in> {9, 10, 11, 12, 13, 32, 133, 160})"

definition strip :: "string \<Rightarrow> string" where
  "strip s = rev (dropWhile is_space (rev (dropWhile is_space s)))"

text \<open>The digits of a decimal literal after its first digit: digits, with single
  underscores allowed between two digits.\<close>

fun int_digits :: "nat \<Rightarrow> string \<Rightarrow> nat option" where
  "int_digits acc [] = Some acc"
| "int_digits acc (c # cs) =
     (if is_digit c then int_digits (10 * acc + digit_val c) cs
      else if c = CHR ''_'' then
        (case cs of
           [] \<Rightarrow> None
         | d # ds \<Rightarrow> if is_digit d then int_digits (10 * acc + digit_val d) ds else None)
      else None)"

definition int_unsigned :: "string \<Rightarrow> nat option" where
  "int_unsigned s =
     (case s of [] \<Rightarrow> None | c # cs \<Rightarrow> if is_digit c then int_digits (digit_val c) cs else None)"

text \<open>\<^verbatim>\<open>int(s)\<close> in base 10: surrounding whitespace is stripped, one sign is allowed,
  anything else that is not a decimal literal raises \<^verbatim>\<open>ValueError\<close>.\<close>

definition py_int :: "string \<Rightarrow> error + int" where
  "py_int s =
     (let t = strip s;
          r = (case t of
                 [] \<Rightarrow> None
               | c # cs \<Rightarrow>
                   if c = CHR ''-'' then map_option (\<lambda>n. - int n) (int_unsigned cs)
                   else if c = CHR ''+'' then map_option int (int_unsigned cs)
                   else map_option int (int_unsigned t))
      in case r of None \<Rightarrow> Inl (ValueError (InvalidLiteral s)) | Some i \<Rightarrow> Inr i)"

definition digit_char :: "nat \<Rightarrow> char" where
  "digit_char d = ''0123456789'' ! d"

fun digits :: "nat \<Rightarrow> string" where
  "digits n = (if n < 10 then [digit_char n] else digits (n div 10) @ [digit_char (n mod 10)])"

declare digits.simps [simp del]

text \<open>\<^verbatim>\<open>str(i)\<close>, which is what the f-string \<^verbatim>\<open>f"{i}"\<close> formats.\<close>

definition py_str :: "int \<Rightarrow> string" where
  "py_str i = (if i < 0 then CHR ''-'' # digits (nat (- i)) else digits (nat i))"

subsection \<open>JSON documents\<close>

text \<open>What \<^verbatim>\<open>json.load\<close> returns: \<^verbatim>\<open>None\<close>, a \<^verbatim>\<open>bool\<close>, an \<^verbatim>\<open>int\<close>, a
  \<^verbatim>\<open>float\<close> (kept as the text \<^verbatim>\<open>json.dump\<close> writes for it, since the scripts never
  compute with one), a \<^verbatim>\<open>str\<close>, a \<^verbatim>\<open>list\<close>, or a \<^verbatim>\<open>dict\<close> with \<^verbatim>\<open>str\<close> keys in
  insertion order.\<close>

datatype json =
    JNull
  | JBool bool
  | JInt int
  | JFloat string
  | JStr string
  | JArr "json list"
  | JObj "(string \<times> json) list"

text \<open>\<^verbatim>\<open>data[key]\<close> and \<^verbatim>\<open>data[key] = value\<close>. Only a \<^verbatim>\<open>dict\<close> takes a \<^verbatim>\<open>str\<close>
  subscript; assignment replaces the value of an existing key in place and appends a new
  key at the end.\<close>

definition getitem :: "json \<Rightarrow> string \<Rightarrow> error + json" where
  "getitem data key =
     (case data of
        JObj kvs \<Rightarrow> (case map_of kvs key of None \<Rightarrow> Inl (KeyError key) | Some v \<Rightarrow> Inr v)
      | _ \<Rightarrow> Inl TypeError)"

definition setitem :: "json \<Rightarrow> string \<Rightarrow> json \<Rightarrow> error + json" where
  "setitem data key v =
     (case data of
        JObj kvs \<Rightarrow> Inr (JObj (AList.update key v kvs))
      | _ \<Rightarrow> Inl TypeError)"

text \<open>\<^verbatim>\<open>current_version.split('.')\<close>: only a \<^verbatim>\<open>str\<close> has the method.\<close>

definition split_version :: "json \<Rightarrow> error + string list" where
  "split_version current_version =
     (case current_version of JStr s \<Rightarrow> Inr (split s (CHR ''.'')) | _ \<Rightarrow> Inl AttributeError)"

text \<open>\<^verbatim>\<open>major, minor, patch = map(int, parts)\<close>. The \<^verbatim>\<open>map\<close> is lazy: unpacking
  converts the parts one at a time, fails on the first part \<^verbatim>\<open>int\<close> rejects, and asks for
  a fourth item (converting it) before it reports too many values.\<close>

fun unpack_map_int :: "string list \<Rightarrow> error + int \<times> int \<times> int" where
  "unpack_map_int [] = Inl (ValueError (NotEnoughValues 0))"
| "unpack_map_int [a] =
     bindE (py_int a) (\<lambda>_. Inl (ValueError (NotEnoughValues 1)))"
| "unpack_map_int [a, b] =
     bindE (py_int a) (\<lambda>_. bindE (py_int b) (\<lambda>_. Inl (ValueError (NotEnoughValues 2))))"
| "unpack_map_int [a, b, c] =
     bindE (py_int a) (\<lambda>major. bindE (py_int b) (\<lambda>minor. bindE (py_int c) (\<lambda>patch.
       Inr (major, minor, patch))))"
| "unpack_map_int (a # b # c # d # _) =
     bindE (py_int a) (\<lambda>_. bindE (py_int b) (\<lambda>_. bindE (py_int c) (\<lambda>_. bindE (py_int d) (\<lambda>_.
       Inl (ValueError TooManyValues)))))"

subsection \<open>\<^verbatim>\<open>json.dump(data, file, indent=2)\<close>\<close>

text \<open>The text the standard encoder writes with an integer \<^verbatim>\<open>indent\<close>: the default
  \<^verbatim>\<open>ensure_ascii\<close> escapes every character outside the printable ASCII range, an empty
  container is written on one line, and every item of a non-empty container starts on a
  line of its own, indented by \<^verbatim>\<open>indent\<close> spaces per nesting level.\<close>

definition hex_char :: "nat \<Rightarrow> char" where
  "hex_char d = ''0123456789abcdef'' ! d"

definition escape_char :: "char \<Rightarrow> string" where
  "escape_char c =
     (let n = (of_char c :: nat) in
      if c = CHR 0x22 then [CHR 0x5C, CHR 0x22]
      else if c = CHR 0x5C then [CHR 0x5C, CHR 0x5C]
      else if c = CHR 0x0A then [CHR 0x5C, CHR ''n'']
      else if c = CHR 0x0D then [CHR 0x5C, CHR ''r'']
      else if c = CHR 0x09 then [CHR 0x5C, CHR ''t'']
      else if c = CHR 0x08 then [CHR 0x5C, CHR ''b'']
      else if c = CHR 0x0C then [CHR 0x5C, CHR ''f'']
      else if n < 32 \<or> 126 < n then
        [CHR 0x5C, CHR ''u'', CHR ''0'', CHR ''0'', hex_char (n div 16), hex_char (n mod 16)]
      else [c])"

definition encode_str :: "string \<Rightarrow> string" where
  "encode_str s = CHR 0x22 # concat (map escape_char s) @ [CHR 0x22]"

fun join :: "string \<Rightarrow> string list \<Rightarrow> string" where
  "join sep [] = []"
| "join sep [x] = x"
| "join sep (x # y # ys) = x @ sep @ join sep (y # ys)"

definition newline_indent :: "nat \<Rightarrow> nat \<Rightarrow> string" where
  "newline_indent indent level = CHR 0x0A # replicate (indent * level) (CHR '' '')"

fun encode :: "nat \<Rightarrow> nat \<Rightarrow> json \<Rightarrow> string" where
  "encode indent level JNull = ''null''"
| "encode indent level (JBool b) = (if b then ''true'' else ''false'')"
| "encode indent level (JInt i) = py_str i"
| "encode indent level (JFloat r) = r"
| "encode indent level (JStr s) = encode_str s"
| "encode indent level (JArr xs) =
     (if xs = [] then ''[]''
      else ''['' @ newline_indent indent (level + 1)
           @ join ('','' @ newline_indent indent (level + 1))
                  (map (encode indent (level + 1)) xs)
           @ newline_indent indent level @ '']'')"
| "encode indent level (JObj kvs) =
     (if kvs = [] then ''{}''
      else ''{'' @ newline_indent indent (level + 1)
           @ join ('','' @ newline_indent indent (level + 1))
                  (map (\<lambda>kv. encode_str (fst kv) @ '': '' @ encode indent (level + 1) (snd kv)) kvs)
           @ newline_indent indent level @ ''}'')"

definition json_dumps :: "json \<Rightarrow> nat \<Rightarrow> string" where
  "json_dumps data indent = encode indent 0 data"

section \<open>The state the version bumper works on\<close>

text \<open>The files of the working directory, by path, and the calls made so far to the
  outside: git, the hosting platform, the clock and standard output.\<close>

datatype action =
    Repo_open string                 \<comment> \<open>\<^verbatim>\<open>git.Repo(path)\<close>\<close>
  | Git_push_delete string string    \<comment> \<open>\<^verbatim>\<open>repo.git.push('--delete', remote, tag)\<close>\<close>
  | Repo_delete_tag string           \<comment> \<open>\<^verbatim>\<open>repo.delete_tag(tag)\<close>\<close>
  | Git_add string                   \<comment> \<open>\<^verbatim>\<open>repo.git.add(path)\<close>\<close>
  | Git_commit string                \<comment> \<open>\<^verbatim>\<open>repo.git.commit(m=message)\<close>\<close>
  | Git_push bool                    \<comment> \<open>\<^verbatim>\<open>repo.git.push(force=flag)\<close>\<close>
  | Repo_create_tag string           \<comment> \<open>\<^verbatim>\<open>repo.create_tag(tag)\<close>\<close>
  | Repo_remote string               \<comment> \<open>\<^verbatim>\<open>repo.remote(name=remote)\<close>\<close>
  | Remote_push string string        \<comment> \<open>\<^verbatim>\<open>remote.push(tag)\<close> on the named remote\<close>
  | Print string                     \<comment> \<open>\<^verbatim>\<open>print(line)\<close>\<close>
  | Sleep nat                        \<comment> \<open>\<^verbatim>\<open>time.sleep(seconds)\<close>\<close>
  | Github_get_repo string           \<comment> \<open>\<^verbatim>\<open>g.get_repo(name)\<close>\<close>
  | Repo_get_releases string         \<comment> \<open>\<^verbatim>\<open>repo.get_releases()\<close>, iterated once\<close>

record world =
  files :: "string \<rightharpoonup> string"
  trace :: "action list"

text \<open>What the scripts cannot decide themselves: the parser behind \<^verbatim>\<open>json.load\<close>
  (\<open>None\<close> when it rejects the text), the environment variable \<^verbatim>\<open>ORIGIN\<close>, which
  external calls raise, and the tag names of the releases the platform lists.\<close>

record env =
  json_loads :: "string \<Rightarrow> json option"
  ORIGIN :: "string option"
  raises :: "action \<Rightarrow> error option"
  release_tags :: "string list"

type_synonym 'a prog = "world \<Rightarrow> (error + 'a) \<times> world"

definition return :: "'a \<Rightarrow> 'a prog" where
  "return x w = (Inr x, w)"

definition bind :: "'a prog \<Rightarrow> ('a \<Rightarrow> 'b prog) \<Rightarrow> 'b prog" where
  "bind m f w = (case m w of (Inl e, w') \<Rightarrow> (Inl e, w') | (Inr x, w') \<Rightarrow> f x w')"

definition liftE :: "error + 'a \<Rightarrow> 'a prog" where
  "liftE r w = (r, w)"

text \<open>An external call is recorded when it is made, whether or not it then raises.\<close>

definition call :: "env \<Rightarrow> action \<Rightarrow> unit prog" where
  "call E a w =
     (case raises E a of
        None \<Rightarrow> (Inr (), w\<lparr>trace := trace w @ [a]\<rparr>)
      | Some e \<Rightarrow> (Inl e, w\<lparr>trace := trace w @ [a]\<rparr>))"

text \<open>\<^verbatim>\<open>print\<close> and \<^verbatim>\<open>time.sleep\<close> do not fail.\<close>

definition print :: "string \<Rightarrow> unit prog" where
  "print line w = (Inr (), w\<lparr>trace := trace w @ [Print line]\<rparr>)"

definition sleep :: "nat \<Rightarrow> unit prog" where
  "sleep seconds w = (Inr (), w\<lparr>trace := trace w @ [Sleep seconds]\<rparr>)"

text \<open>\<^verbatim>\<open>try: body  except git.exc.GitCommandError: pass\<close>\<close>

definition try_except_GitCommandError :: "unit prog \<Rightarrow> unit prog" where
  "try_except_GitCommandError body w =
     (case body w of
        (Inl GitCommandError, w') \<Rightarrow> (Inr (), w')
      | r \<Rightarrow> r)"

text \<open>\<^verbatim>\<open>with open(file_path, 'r') as file: data = json.load(file)\<close>\<close>

definition json_load :: "env \<Rightarrow> string \<Rightarrow> json prog" where
  "json_load E file_path w =
     (case files w file_path of
        None \<Rightarrow> (Inl (FileNotFoundError file_path), w)
      | Some text \<Rightarrow>
          (case json_loads E text of
             None \<Rightarrow> (Inl JSONDecodeError, w)
           | Some data \<Rightarrow> (Inr data, w)))"

text \<open>\<^verbatim>\<open>with open(file_path, 'w') as file: json.dump(data, file, indent=indent)\<close>\<close>

definition json_dump :: "json \<Rightarrow> string \<Rightarrow> nat \<Rightarrow> unit prog" where
  "json_dump data file_path indent w =
     (Inr (), w\<lparr>files := (files w)(file_path \<mapsto> json_dumps data indent)\<rparr>)"

section \<open>The version bumper\<close>

definition REMOTE :: "env \<Rightarrow> string" where
  "REMOTE E = (case ORIGIN E of None \<Rightarrow> ''origin'' | Some r \<Rightarrow> r)"

text \<open>The f-string \<^verbatim>\<open>f"{major}.{minor}.{patch}"\<close>\<close>

definition format_version :: "int \<Rightarrow> int \<Rightarrow> int \<Rightarrow> string" where
  "format_version major minor patch = py_str major @ ''.'' @ py_str minor @ ''.'' @ py_str patch"

text \<open>\<^verbatim>\<open>set_version\<close> (\<^verbatim>\<open>version.py\<close>, lines 10 to 20): load the document, assign
  the version, write the document back, return the version.\<close>

definition set_version :: "env \<Rightarrow> string \<Rightarrow> string \<Rightarrow> string prog" where
  "set_version E file_path new_version =
     bind (json_load E file_path) (\<lambda>data.
     bind (liftE (setitem data ''version'' (JStr new_version))) (\<lambda>data.
     bind (json_dump data file_path 2) (\<lambda>_.
     return new_version)))"

text \<open>\<^verbatim>\<open>bump_version\<close> (lines 23 to 50). Every step before the file is opened for
  writing can raise, and then nothing is written: the load, \<^verbatim>\<open>data['version']\<close>, the
  split, the conversion of the parts, and the \<^verbatim>\<open>else\<close> branch of the mode.\<close>

definition bump_version :: "env \<Rightarrow> string \<Rightarrow> string \<Rightarrow> string prog" where
  "bump_version E file_path version_type =
     bind (json_load E file_path) (\<lambda>data.
     bind (liftE (getitem data ''version'')) (\<lambda>current_version.
     bind (liftE (bindE (split_version current_version) unpack_map_int)) (\<lambda>(major, minor, patch).
     bind (liftE
       (if version_type = ''major'' then Inr (major + 1, 0, 0)
        else if version_type = ''minor'' then Inr (major, minor + 1, 0)
        else if version_type = ''patch'' then Inr (major, minor, patch + 1)
        else if version_type = ''force'' then Inr (major, minor, patch)
        else Inl (ValueError InvalidVersionType))) (\<lambda>(major, minor, patch).
     let new_version = format_version major minor patch in
     bind (liftE (setitem data ''version'' (JStr new_version))) (\<lambda>data.
     bind (json_dump data file_path 2) (\<lambda>_.
     return new_version))))))"

text \<open>\<^verbatim>\<open>delete_tag\<close> (lines 52 to 60): each deletion in a \<^verbatim>\<open>try\<close> of its own.\<close>

definition delete_tag :: "env \<Rightarrow> string \<Rightarrow> unit prog" where
  "delete_tag E tag_name =
     bind (try_except_GitCommandError (call E (Git_push_delete (REMOTE E) tag_name))) (\<lambda>_.
     try_except_GitCommandError (call E (Repo_delete_tag tag_name)))"

text \<open>\<^verbatim>\<open>[release.tag_name for release in repo.get_releases()]\<close> (lines 102 and 103).\<close>

definition get_releases :: "env \<Rightarrow> string \<Rightarrow> string list prog" where
  "get_releases E repo_name =
     bind (call E (Repo_get_releases repo_name)) (\<lambda>_. return (release_tags E))"

text \<open>\<^verbatim>\<open>main\<close> (lines 64 to 108), step by step in the order of the source; an exception
  of a step ends the run there. Constructing the \<^verbatim>\<open>Github()\<close> client makes no call.\<close>

definition main :: "env \<Rightarrow> string \<Rightarrow> unit prog" where
  "main E version_type =
     (let manifest_file = ''manifest.json'';
          beta_manifest_file = ''manifest-beta.json'';
          repo_name = ''no-instructions/relay''
      in
      bind (call E (Repo_open ''.'')) (\<lambda>_.
      bind (bump_version E beta_manifest_file version_type) (\<lambda>new_beta_version.
      bind (set_version E manifest_file new_beta_version) (\<lambda>new_version.
      bind (delete_tag E new_version) (\<lambda>_.
      bind (call E (Git_add manifest_file)) (\<lambda>_.
      bind (call E (Git_add beta_manifest_file)) (\<lambda>_.
      bind (try_except_GitCommandError
              (call E (Git_commit (''version: bump the version to '' @ new_version)))) (\<lambda>_.
      bind (call E (Git_push (version_type = ''force''))) (\<lambda>_.
      bind (call E (Repo_create_tag new_version)) (\<lambda>_.
      bind (call E (Repo_remote (REMOTE E))) (\<lambda>_.
      bind (call E (Remote_push (REMOTE E) new_version)) (\<lambda>_.
      bind (print ''Waiting for GitHub to create the release...'') (\<lambda>_.
      bind (sleep 30) (\<lambda>_.
      bind (call E (Github_get_repo repo_name)) (\<lambda>_.
      bind (get_releases E repo_name) (\<lambda>release_names.
      if new_version \<in> set release_names
      then print (''Release '' @ new_version @ '' created successfully.'')
      else print (''Release '' @ new_version @ '' not found.'')))))))))))))))))"

section \<open>The watcher\<close>

text \<open>An event of \<^verbatim>\<open>inotify.event_gen(yield_nones=False)\<close>: header, type names, path
  and file name.\<close>

type_synonym 'h event = "'h \<times> string list \<times> string \<times> string"

text \<open>The \<^verbatim>\<open>for\<close> loop of the watcher's \<^verbatim>\<open>main\<close> over the events delivered so far,
  with the lines printed as its state.\<close>

fun event_loop :: "string list \<Rightarrow> 'h event list \<Rightarrow> string list" where
  "event_loop out [] = out"
| "event_loop out ((_, type_names, path, filename) # events) =
     event_loop
       (if ''IN_MODIFY'' \<in> set type_names
        then out @ [''Modified file: '' @ path @ ''/'' @ filename]
        else out)
       events"

text \<open>\<^verbatim>\<open>main(directory)\<close> of \<^verbatim>\<open>watch.py\<close>: the lines on standard output once the
  generator has delivered the given events.\<close>

definition watch_main :: "string \<Rightarrow> 'h event list \<Rightarrow> string list" where
  "watch_main directory events =
     event_loop [''Listening for changes in: '' @ directory] events"

section \<open>Auxiliary notions for the proofs\<close>

text \<open>The part of \<^verbatim>\<open>main\<close> after both manifests are written (tag deletion to the
  end), as \<^verbatim>\<open>main\<close> has it.\<close>

definition after_manifests :: "env \<Rightarrow> string \<Rightarrow> string \<Rightarrow> unit prog" where
  "after_manifests E version_type new_version =
      bind (delete_tag E new_version) (\<lambda>_.
      bind (call E (Git_add ''manifest.json'')) (\<lambda>_.
      bind (call E (Git_add ''manifest-beta.json'')) (\<lambda>_.
      bind (try_except_GitCommandError
              (call E (Git_commit (''version: bump the version to '' @ new_version)))) (\<lambda>_.
      bind (call E (Git_push (version_type = ''force''))) (\<lambda>_.
      bind (call E (Repo_create_tag new_version)) (\<lambda>_.
      bind (call E (Repo_remote (REMOTE E))) (\<lambda>_.
      bind (call E (Remote_push (REMOTE E) new_version)) (\<lambda>_.
      bind (print ''Waiting for GitHub to create the release...'') (\<lambda>_.
      bind (sleep 30) (\<lambda>_.
      bind (call E (Github_get_repo ''no-instructions/relay'')) (\<lambda>_.
      bind (get_releases E ''no-instructions/relay'') (\<lambda>release_names.
      if new_version \<in> set release_names
      then print (''Release '' @ new_version @ '' created successfully.'')
      else print (''Release '' @ new_version @ '' not found.'')))))))))))))"

text \<open>The environment lets a run with the given mode and new version through: of the
  external calls \<^verbatim>\<open>main\<close> makes, the three guarded by
  \<^verbatim>\<open>except git.exc.GitCommandError\<close> raise nothing else, and no other call raises.\<close>

definition externals_succeed :: "env \<Rightarrow> string \<Rightarrow> string \<Rightarrow> bool" where
  "externals_succeed E version_type v \<longleftrightarrow>
     raises E (Repo_open ''.'') = None \<and>
     (\<forall>a \<in> set [Git_push_delete (REMOTE E) v, Repo_delete_tag v,
                  Git_commit (''version: bump the version to '' @ v)].
        raises E a \<in> {None, Some GitCommandError}) \<and>
     (\<forall>a \<in> set [Git_add ''manifest.json'', Git_add ''manifest-beta.json'',
                  Git_push (version_type = ''force''), Repo_create_tag v, Repo_remote (REMOTE E),
                  Remote_push (REMOTE E) v, Github_get_repo ''no-instructions/relay'',
                  Repo_get_releases ''no-instructions/relay'']. raises E a = None)"

definition files_kept :: "'a prog \<Rightarrow> bool" where
  "files_kept p = (\<forall>w. files (snd (p w)) = files w)"

definition trace_grows :: "'a prog \<Rightarrow> bool" where
  "trace_grows p = (\<forall>w. prefix (trace w) (trace (snd (p w))))"

section \<open>Example inputs\<close>

text \<open>A parser that knows the manifest texts used in the examples, an environment in
  which no external call fails, one in which the three calls guarded by
  \<^verbatim>\<open>except git.exc.GitCommandError\<close> fail, and a working directory holding the two
  manifests.\<close>

definition example_docs :: "(string \<times> json) list" where
  \<open>example_docs =
     [(''{"version": "1.2.3", "name": "relay"}'',
         JObj [(''version'', JStr ''1.2.3''), (''name'', JStr ''relay'')]),
      (''{"version": "1.2.3"}'', JObj [(''version'', JStr ''1.2.3'')]),
      (''{"version": "1.0.0"}'', JObj [(''version'', JStr ''1.0.0'')]),
      (''{"version": "1.2"}'', JObj [(''version'', JStr ''1.2'')]),
      (''{"version": "1.2.3.4"}'', JObj [(''version'', JStr ''1.2.3.4'')]),
      (''{"version": "01.2.3"}'', JObj [(''version'', JStr ''01.2.3'')]),
      (''{"version": "-1.2.3"}'', JObj [(''version'', JStr ''-1.2.3'')])]\<close>

definition quiet_env :: env where
  "quiet_env =
     \<lparr>json_loads = map_of example_docs, ORIGIN = None, raises = (\<lambda>_. None),
      release_tags = [''1.2.3'', ''1.3.0'']\<rparr>"

definition failing_git_env :: env where
  "failing_git_env =
     \<lparr>json_loads = map_of example_docs, ORIGIN = Some ''upstream'',
      raises = (\<lambda>a. case a of
                  Git_push_delete _ _ \<Rightarrow> Some GitCommandError
                | Repo_delete_tag _ \<Rightarrow> Some GitCommandError
                | Git_commit _ \<Rightarrow> Some GitCommandError
                | _ \<Rightarrow> None),
      release_tags = []\<rparr>"

text \<open>An environment in which git refuses a tag name that starts with a minus sign, as
  it does: deleting such a tag fails (and is caught), creating it fails.\<close>

definition dash_refusing_env :: env where
  "dash_refusing_env =
     \<lparr>json_loads = map_of example_docs, ORIGIN = None,
      raises = (\<lambda>a. case a of
                  Git_push_delete _ t \<Rightarrow> if take 1 t = ''-'' then Some GitCommandError else None
                | Repo_delete_tag t \<Rightarrow> if take 1 t = ''-'' then Some GitCommandError else None
                | Repo_create_tag t \<Rightarrow> if take 1 t = ''-'' then Some GitCommandError else None
                | _ \<Rightarrow> None),
      release_tags = []\<rparr>"

definition example_world :: "string \<Rightarrow> string \<Rightarrow> world" where
  "example_world beta primary =
     \<lparr>files = [''manifest-beta.json'' \<mapsto> beta, ''manifest.json'' \<mapsto> primary], trace = []\<rparr>"

section \<open>Strings and integers\<close>

lemma split_acc_no_sep: "sep \<notin> set a \<Longrightarrow> split_acc sep cur a = [cur @ a]"
  by (induction a arbitrary: cur) auto

lemma split_acc_sep:
  "sep \<notin> set a \<Longrightarrow> split_acc sep cur (a @ sep # rest) = (cur @ a) # split_acc sep [] rest"
  by (induction a arbitrary: cur) auto

lemma split_three:
  assumes "sep \<notin> set a" "sep \<notin> set b" "sep \<notin> set c"
  shows "split (a @ sep # b @ sep # c) sep = [a, b, c]"
  using assms by (simp add: split_def split_acc_sep split_acc_no_sep)

lemma digit_char_props:
  assumes "d < 10"
  shows "is_digit (digit_char d)" "digit_val (digit_char d) = d"
    "digit_char d \<noteq> CHR ''.''" "\<not> is_space (digit_char d)"
    "digit_char d \<noteq> CHR ''-''" "digit_char d \<noteq> CHR ''+''" "digit_char d \<noteq> CHR ''_''"
proof -
  from assms have "d \<in> {0, 1, 2, 3, 4, 5, 6, 7, 8, 9}" by auto
  then show "is_digit (digit_char d)" "digit_val (digit_char d) = d"
    "digit_char d \<noteq> CHR ''.''" "\<not> is_space (digit_char d)"
    "digit_char d \<noteq> CHR ''-''" "digit_char d \<noteq> CHR ''+''" "digit_char d \<noteq> CHR ''_''"
    by (auto simp: digit_char_def is_digit_def digit_val_def is_space_def)
qed

lemma digits_not_Nil: "digits n \<noteq> []"
  by (subst digits.simps) simp

lemma digits_set: "c \<in> set (digits n) \<Longrightarrow> \<exists>d < 10. c = digit_char d"
proof (induction n rule: digits.induct)
  case (1 n)
  show ?case
  proof (cases "n < 10")
    case True
    with "1.prems" show ?thesis by (subst (asm) digits.simps) auto
  next
    case False
    with "1.prems" have "c \<in> set (digits (n div 10)) \<or> c = digit_char (n mod 10)"
      by (subst (asm) digits.simps) auto
    with 1 False show ?thesis by (metis mod_less_divisor zero_less_numeral)
  qed
qed

lemma int_digits_digits:
  "int_digits acc (digits n @ ys) = int_digits (acc * 10 ^ length (digits n) + n) ys"
proof (induction n arbitrary: acc ys rule: digits.induct)
  case (1 n)
  show ?case
  proof (cases "n < 10")
    case True
    then show ?thesis
      by (subst (1 2) digits.simps) (simp add: digit_char_props mult.commute)
  next
    case False
    have "int_digits acc (digits n @ ys)
        = int_digits acc (digits (n div 10) @ digit_char (n mod 10) # ys)"
      using False by (subst digits.simps) simp
    also have "\<dots> = int_digits (acc * 10 ^ length (digits (n div 10)) + n div 10)
                        (digit_char (n mod 10) # ys)"
      using False by (rule "1.IH")
    also have "\<dots> = int_digits (10 * (acc * 10 ^ length (digits (n div 10)) + n div 10) + n mod 10) ys"
      by (simp add: digit_char_props)
    also have "10 * (acc * 10 ^ length (digits (n div 10)) + n div 10) + n mod 10
        = acc * 10 ^ length (digits n) + n"
      using False by (subst (2) digits.simps) (simp add: algebra_simps)
    finally show ?thesis .
  qed
qed

lemma int_unsigned_digits: "int_unsigned (digits n) = Some n"
proof -
  obtain c cs where cs: "digits n = c # cs" using digits_not_Nil by (cases "digits n") auto
  then have "c \<in> set (digits n)" by simp
  then obtain d where d: "d < 10" "c = digit_char d" using digits_set by blast
  have "int_digits 0 (digits n @ []) = Some n"
    by (simp only: int_digits_digits) simp
  then have "int_digits 0 (c # cs) = Some n" using cs by simp
  then have "int_digits (digit_val c) cs = Some n" using d by (simp add: digit_char_props)
  then show ?thesis using cs d by (simp add: int_unsigned_def digit_char_props)
qed

lemma strip_id:
  assumes "s \<noteq> []" "\<not> is_space (hd s)" "\<not> is_space (last s)"
  shows "strip s = s"
proof -
  have 1: "dropWhile is_space s = s" using assms by (cases s) auto
  have "dropWhile is_space (rev s) = rev s"
    using assms by (cases "rev s") (auto simp: last_rev [symmetric] hd_rev)
  then show ?thesis by (simp add: strip_def 1)
qed

lemma digits_hd_last:
  "\<not> is_space (hd (digits n))" "\<not> is_space (last (digits n))"
  "hd (digits n) \<noteq> CHR ''-''" "hd (digits n) \<noteq> CHR ''+''"
proof -
  have "hd (digits n) \<in> set (digits n)" "last (digits n) \<in> set (digits n)"
    using digits_not_Nil by simp_all
  then obtain d e where "d < 10" "hd (digits n) = digit_char d" "e < 10" "last (digits n) = digit_char e"
    using digits_set by blast
  then show "\<not> is_space (hd (digits n))" "\<not> is_space (last (digits n))"
    "hd (digits n) \<noteq> CHR ''-''" "hd (digits n) \<noteq> CHR ''+''"
    by (simp_all add: digit_char_props)
qed

lemma minus_not_space: "\<not> is_space (CHR ''-'')"
  by (simp add: is_space_def)

lemma py_int_py_str: "py_int (py_str i) = Inr i"
proof (cases "i < 0")
  case True
  have s: "strip (CHR ''-'' # digits (nat (- i))) = CHR ''-'' # digits (nat (- i))"
    using minus_not_space by (intro strip_id) (simp_all add: digits_hd_last digits_not_Nil)
  show ?thesis using True by (simp add: py_int_def py_str_def s int_unsigned_digits)
next
  case False
  have s: "strip (digits (nat i)) = digits (nat i)"
    by (rule strip_id) (simp_all add: digits_hd_last digits_not_Nil)
  obtain c cs where cs: "digits (nat i) = c # cs"
    using digits_not_Nil by (cases "digits (nat i)") auto
  then have "c \<noteq> CHR ''-''" "c \<noteq> CHR ''+''"
    using digits_hd_last(3,4) [of "nat i"] by simp_all
  moreover have "strip (c # cs) = c # cs" "int_unsigned (c # cs) = Some (nat i)"
    using s int_unsigned_digits [of "nat i"] by (simp_all add: cs)
  ultimately show ?thesis
    using False by (simp add: py_int_def py_str_def cs)
qed

lemma dot_notin_py_str: "CHR ''.'' \<notin> set (py_str i)"
proof -
  have "CHR ''.'' \<notin> set (digits n)" for n
    using digits_set [of "CHR ''.''" n] digit_char_props(3) by metis
  then show ?thesis by (simp add: py_str_def)
qed

lemma split_format_version:
  "split (format_version a b c) (CHR ''.'') = [py_str a, py_str b, py_str c]"
  using split_three [of "CHR ''.''" "py_str a" "py_str b" "py_str c"]
  by (simp add: format_version_def dot_notin_py_str)

lemma unpack_format_version:
  "unpack_map_int (split (format_version a b c) (CHR ''.'')) = Inr (a, b, c)"
  by (simp add: split_format_version py_int_py_str bindE_def)

lemma py_int_ValueError: "py_int s = Inl e \<Longrightarrow> \<exists>ve. e = ValueError ve"
  by (auto simp: py_int_def Let_def split: option.splits)

lemma bindE_Inr_iff [simp]: "bindE r f = Inr y \<longleftrightarrow> (\<exists>x. r = Inr x \<and> f x = Inr y)"
  by (cases r) (auto simp: bindE_def)

lemma unpack_map_int_Inr_iff:
  "unpack_map_int parts = Inr (x, y, z) \<longleftrightarrow>
     (\<exists>a b c. parts = [a, b, c] \<and> py_int a = Inr x \<and> py_int b = Inr y \<and> py_int c = Inr z)"
  by (induction parts rule: unpack_map_int.induct) auto

lemma unpack_map_int_ValueError:
  "unpack_map_int parts = Inl e \<Longrightarrow> \<exists>ve. e = ValueError ve"
  by (induction parts rule: unpack_map_int.induct)
     (auto simp: bindE_def split: sum.splits dest: py_int_ValueError)

section \<open>Reading and writing a manifest\<close>

lemma bind_eq_Inr_iff:
  "bind m f w = (Inr y, w'') \<longleftrightarrow> (\<exists>x w'. m w = (Inr x, w') \<and> f x w' = (Inr y, w''))"
  by (auto simp: bind_def split: prod.splits sum.splits)

lemma json_load_eq_Inr_iff:
  "json_load E file_path w = (Inr data, w') \<longleftrightarrow>
     (\<exists>content. files w file_path = Some content \<and> json_loads E content = Some data \<and> w' = w)"
  by (auto simp: json_load_def split: option.splits)

lemma liftE_eq_iff: "liftE r w = (r', w') \<longleftrightarrow> r = r' \<and> w' = w"
  by (auto simp: liftE_def)

lemma getitem_eq_Inr_iff:
  "getitem data key = Inr v \<longleftrightarrow> (\<exists>kvs. data = JObj kvs \<and> map_of kvs key = Some v)"
  by (auto simp: getitem_def split: json.splits option.splits)

lemma setitem_eq_Inr_iff:
  "setitem data key v = Inr data' \<longleftrightarrow> (\<exists>kvs. data = JObj kvs \<and> data' = JObj (AList.update key v kvs))"
  by (auto simp: setitem_def split: json.splits)

lemma split_version_eq_Inr_iff:
  "split_version cv = Inr parts \<longleftrightarrow> (\<exists>s. cv = JStr s \<and> parts = split s (CHR ''.''))"
  by (auto simp: split_version_def split: json.splits)

lemma json_dump_eq:
  "json_dump data file_path indent w =
     (Inr (), w\<lparr>files := (files w)(file_path \<mapsto> json_dumps data indent)\<rparr>)"
  by (simp add: json_dump_def)

lemma return_eq: "return x w = (Inr x, w)"
  by (simp add: return_def)

lemma set_version_ok:
  assumes "files w file_path = Some content" "json_loads E content = Some (JObj kvs)"
  shows "set_version E file_path new_version w =
     (Inr new_version,
      w\<lparr>files := (files w)(file_path \<mapsto>
           json_dumps (JObj (AList.update ''version'' (JStr new_version) kvs)) 2)\<rparr>)"
  using assms
  by (simp add: set_version_def bind_def json_load_def liftE_def setitem_def json_dump_eq return_eq)

lemma set_version_Inr:
  assumes "set_version E file_path new_version w = (Inr v, w')"
  shows "\<exists>content kvs. files w file_path = Some content \<and> json_loads E content = Some (JObj kvs) \<and>
           v = new_version \<and>
           w' = w\<lparr>files := (files w)(file_path \<mapsto>
                  json_dumps (JObj (AList.update ''version'' (JStr new_version) kvs)) 2)\<rparr>"
  using assms
  by (auto simp: set_version_def bind_eq_Inr_iff json_load_eq_Inr_iff liftE_eq_iff
        setitem_eq_Inr_iff json_dump_eq return_eq)

lemma bump_version_parsed:
  assumes "files w file_path = Some content" "json_loads E content = Some (JObj kvs)"
    and "map_of kvs ''version'' = Some (JStr cv)"
    and "unpack_map_int (split cv (CHR ''.'')) = Inr (M, m, p)"
  shows "bump_version E file_path vt w =
     (case (if vt = ''major'' then Inr (M + 1, 0, 0)
            else if vt = ''minor'' then Inr (M, m + 1, 0)
            else if vt = ''patch'' then Inr (M, m, p + 1)
            else if vt = ''force'' then Inr (M, m, p)
            else Inl (ValueError InvalidVersionType)) of
        Inl e \<Rightarrow> (Inl e, w)
      | Inr (a, b, c) \<Rightarrow>
          (Inr (format_version a b c),
           w\<lparr>files := (files w)(file_path \<mapsto>
                json_dumps (JObj (AList.update ''version'' (JStr (format_version a b c)) kvs)) 2)\<rparr>))"
  using assms
  by (simp add: bump_version_def bind_def json_load_def liftE_def getitem_def setitem_def
        split_version_def bindE_def json_dump_eq return_eq Let_def)

lemma bump_version_ok:
  assumes "files w file_path = Some content" "json_loads E content = Some (JObj kvs)"
    and "map_of kvs ''version'' = Some (JStr cv)"
    and "unpack_map_int (split cv (CHR ''.'')) = Inr (M, m, p)"
    and "(vt, a, b, c) \<in> {(''major'', M + 1, 0, 0), (''minor'', M, m + 1, 0),
                           (''patch'', M, m, p + 1), (''force'', M, m, p)}"
  shows "bump_version E file_path vt w =
     (Inr (format_version a b c),
      w\<lparr>files := (files w)(file_path \<mapsto>
           json_dumps (JObj (AList.update ''version'' (JStr (format_version a b c)) kvs)) 2)\<rparr>)"
  using assms(5) by (auto simp: bump_version_parsed [OF assms(1-4)])

lemma bump_version_Inr:
  assumes "bump_version E file_path vt w = (Inr v, w')"
  shows "\<exists>content kvs cv M m p a b c.
           files w file_path = Some content \<and> json_loads E content = Some (JObj kvs) \<and>
           map_of kvs ''version'' = Some (JStr cv) \<and>
           unpack_map_int (split cv (CHR ''.'')) = Inr (M, m, p) \<and>
           (vt, a, b, c) \<in> {(''major'', M + 1, 0, 0), (''minor'', M, m + 1, 0),
                              (''patch'', M, m, p + 1), (''force'', M, m, p)} \<and>
           v = format_version a b c \<and>
           w' = w\<lparr>files := (files w)(file_path \<mapsto>
                  json_dumps (JObj (AList.update ''version'' (JStr v) kvs)) 2)\<rparr>"
proof -
  from assms obtain data cv mmp where
    1: "json_load E file_path w = (Inr data, w)" and
    2: "getitem data ''version'' = Inr cv" and
    3: "bindE (split_version cv) unpack_map_int = Inr mmp"
    by (auto simp: bump_version_def bind_eq_Inr_iff json_load_eq_Inr_iff liftE_eq_iff)
  from 1 obtain content where t: "files w file_path = Some content" "json_loads E content = Some data"
    by (auto simp: json_load_eq_Inr_iff)
  from 2 obtain kvs where k: "data = JObj kvs" "map_of kvs ''version'' = Some cv"
    by (auto simp: getitem_eq_Inr_iff)
  from 3 obtain s M m p where s: "cv = JStr s" "unpack_map_int (split s (CHR ''.'')) = Inr (M, m, p)"
    by (cases mmp) (auto simp: split_version_eq_Inr_iff)
  note P = bump_version_parsed [OF t(1) t(2) [unfolded k(1)] k(2) [unfolded s(1)] s(2), of vt]
  from assms show ?thesis
    unfolding P using t k s
    by (auto split: if_splits)
qed

section \<open>Runs of \<^verbatim>\<open>main\<close>\<close>

lemma main_alt:
  "main E version_type =
     bind (call E (Repo_open ''.'')) (\<lambda>_.
     bind (bump_version E ''manifest-beta.json'' version_type) (\<lambda>new_beta_version.
     bind (set_version E ''manifest.json'' new_beta_version) (\<lambda>new_version.
     after_manifests E version_type new_version)))"
  by (simp add: main_def after_manifests_def Let_def)

lemma call_ok: "raises E a = None \<Longrightarrow> call E a w = (Inr (), w\<lparr>trace := trace w @ [a]\<rparr>)"
  by (simp add: call_def)

lemma try_call:
  "raises E a \<in> {None, Some GitCommandError} \<Longrightarrow>
   try_except_GitCommandError (call E a) w = (Inr (), w\<lparr>trace := trace w @ [a]\<rparr>)"
  by (auto simp: try_except_GitCommandError_def call_def)

lemma delete_tag_swallows:
  assumes "raises E (Git_push_delete (REMOTE E) tag_name) \<in> {None, Some GitCommandError}"
    and "raises E (Repo_delete_tag tag_name) \<in> {None, Some GitCommandError}"
  shows "delete_tag E tag_name w =
     (Inr (), w\<lparr>trace := trace w @ [Git_push_delete (REMOTE E) tag_name, Repo_delete_tag tag_name]\<rparr>)"
  by (simp add: delete_tag_def bind_def try_call [OF assms(1)] try_call [OF assms(2)])

lemma print_eq: "print line w = (Inr (), w\<lparr>trace := trace w @ [Print line]\<rparr>)"
  by (simp add: print_def)

lemma sleep_eq: "sleep n w = (Inr (), w\<lparr>trace := trace w @ [Sleep n]\<rparr>)"
  by (simp add: sleep_def)

lemma get_releases_ok:
  "raises E (Repo_get_releases name) = None \<Longrightarrow>
   get_releases E name w = (Inr (release_tags E), w\<lparr>trace := trace w @ [Repo_get_releases name]\<rparr>)"
  by (simp add: get_releases_def bind_def call_ok return_eq)

lemma after_manifests_run:
  assumes sw: "\<forall>a \<in> set [Git_push_delete (REMOTE E) v, Repo_delete_tag v,
                 Git_commit (''version: bump the version to '' @ v)].
               raises E a \<in> {None, Some GitCommandError}"
    and ok: "\<forall>a \<in> set [Git_add ''manifest.json'', Git_add ''manifest-beta.json'',
                 Git_push (vt = ''force''), Repo_create_tag v, Repo_remote (REMOTE E),
                 Remote_push (REMOTE E) v, Github_get_repo ''no-instructions/relay'',
                 Repo_get_releases ''no-instructions/relay'']. raises E a = None"
  shows "after_manifests E vt v w =
     (Inr (), w\<lparr>trace := trace w @
        [Git_push_delete (REMOTE E) v, Repo_delete_tag v,
         Git_add ''manifest.json'', Git_add ''manifest-beta.json'',
         Git_commit (''version: bump the version to '' @ v),
         Git_push (vt = ''force''), Repo_create_tag v, Repo_remote (REMOTE E),
         Remote_push (REMOTE E) v,
         Print ''Waiting for GitHub to create the release...'', Sleep 30,
         Github_get_repo ''no-instructions/relay'', Repo_get_releases ''no-instructions/relay'',
         Print (if v \<in> set (release_tags E)
                then ''Release '' @ v @ '' created successfully.''
                else ''Release '' @ v @ '' not found.'')]\<rparr>)"
proof -
  from sw have d: "delete_tag E v w =
     (Inr (), w\<lparr>trace := trace w @ [Git_push_delete (REMOTE E) v, Repo_delete_tag v]\<rparr>)" for w
    by (intro delete_tag_swallows) simp_all
  define msg where "msg = ''version: bump the version to '' @ v"
  from sw have c: "try_except_GitCommandError (call E (Git_commit msg)) w =
     (Inr (), w\<lparr>trace := trace w @ [Git_commit msg]\<rparr>)" for w
    unfolding msg_def by (intro try_call) simp
  from ok have o: "call E (Git_add ''manifest.json'') w = (Inr (), w\<lparr>trace := trace w @ [Git_add ''manifest.json'']\<rparr>)"
    "call E (Git_add ''manifest-beta.json'') w = (Inr (), w\<lparr>trace := trace w @ [Git_add ''manifest-beta.json'']\<rparr>)"
    "call E (Git_push (vt = ''force'')) w = (Inr (), w\<lparr>trace := trace w @ [Git_push (vt = ''force'')]\<rparr>)"
    "call E (Repo_create_tag v) w = (Inr (), w\<lparr>trace := trace w @ [Repo_create_tag v]\<rparr>)"
    "call E (Repo_remote (REMOTE E)) w = (Inr (), w\<lparr>trace := trace w @ [Repo_remote (REMOTE E)]\<rparr>)"
    "call E (Remote_push (REMOTE E) v) w = (Inr (), w\<lparr>trace := trace w @ [Remote_push (REMOTE E) v]\<rparr>)"
    "call E (Github_get_repo ''no-instructions/relay'') w = (Inr (), w\<lparr>trace := trace w @ [Github_get_repo ''no-instructions/relay'']\<rparr>)"
    "get_releases E ''no-instructions/relay'' w = (Inr (release_tags E), w\<lparr>trace := trace w @ [Repo_get_releases ''no-instructions/relay'']\<rparr>)"
    for w
    by (simp_all add: call_ok get_releases_ok)
  show ?thesis
    unfolding after_manifests_def msg_def [symmetric]
    by (simp add: bind_def d c o print_eq sleep_eq)
qed

lemma main_manifests:
  assumes beta: "files w ''manifest-beta.json'' = Some tb" "json_loads E tb = Some (JObj kb)"
      "map_of kb ''version'' = Some (JStr cv)"
      "unpack_map_int (split cv (CHR ''.'')) = Inr (M, m, p)"
    and mode: "(vt, a, b, c) \<in> {(''major'', M + 1, 0, 0), (''minor'', M, m + 1, 0),
                                 (''patch'', M, m, p + 1), (''force'', M, m, p)}"
    and v: "v = format_version a b c"
    and primary: "files w ''manifest.json'' = Some tp" "json_loads E tp = Some (JObj kp)"
    and repo: "raises E (Repo_open ''.'') = None"
  shows "main E vt w =
     after_manifests E vt v
       (w\<lparr>trace := trace w @ [Repo_open ''.''],
          files := (files w)
           (''manifest-beta.json'' \<mapsto> json_dumps (JObj (AList.update ''version'' (JStr v) kb)) 2,
            ''manifest.json'' \<mapsto> json_dumps (JObj (AList.update ''version'' (JStr v) kp)) 2)\<rparr>)"
proof -
  let ?w1 = "w\<lparr>trace := trace w @ [Repo_open ''.'']\<rparr>"
  let ?w2 = "?w1\<lparr>files := (files ?w1)(''manifest-beta.json'' \<mapsto>
               json_dumps (JObj (AList.update ''version'' (JStr v) kb)) 2)\<rparr>"
  let ?w3 = "?w2\<lparr>files := (files ?w2)(''manifest.json'' \<mapsto>
               json_dumps (JObj (AList.update ''version'' (JStr v) kp)) 2)\<rparr>"
  have 1: "call E (Repo_open ''.'') w = (Inr (), ?w1)"
    using repo by (rule call_ok)
  have 2: "bump_version E ''manifest-beta.json'' vt ?w1 = (Inr v, ?w2)"
    unfolding v using beta mode by (intro bump_version_ok [where content = tb and cv = cv]) simp_all
  have 3: "set_version E ''manifest.json'' v ?w2 = (Inr v, ?w3)"
    using primary by (intro set_version_ok [where content = tp]) simp_all
  have A: "bind (call E (Repo_open ''.'')) F w = F () ?w1" for F :: "unit \<Rightarrow> unit prog"
    using 1 by (simp add: bind_def)
  have B: "bind (bump_version E ''manifest-beta.json'' vt) F ?w1 = F v ?w2"
    for F :: "string \<Rightarrow> unit prog"
    using 2 by (simp add: bind_def)
  have C: "bind (set_version E ''manifest.json'' v) F ?w2 = F v ?w3"
    for F :: "string \<Rightarrow> unit prog"
    using 3 by (simp add: bind_def)
  have "main E vt w = after_manifests E vt v ?w3"
    unfolding main_alt by (simp only: A B C)
  then show ?thesis
    by (simp add: fun_upd_twist)
qed

lemma main_run:
  assumes beta: "files w ''manifest-beta.json'' = Some tb" "json_loads E tb = Some (JObj kb)"
      "map_of kb ''version'' = Some (JStr cv)"
      "unpack_map_int (split cv (CHR ''.'')) = Inr (M, m, p)"
    and mode: "(vt, a, b, c) \<in> {(''major'', M + 1, 0, 0), (''minor'', M, m + 1, 0),
                                 (''patch'', M, m, p + 1), (''force'', M, m, p)}"
    and v: "v = format_version a b c"
    and primary: "files w ''manifest.json'' = Some tp" "json_loads E tp = Some (JObj kp)"
    and ext: "externals_succeed E vt v"
  shows "main E vt w =
     (Inr (),
      w\<lparr>files := (files w)
           (''manifest-beta.json'' \<mapsto> json_dumps (JObj (AList.update ''version'' (JStr v) kb)) 2,
            ''manifest.json'' \<mapsto> json_dumps (JObj (AList.update ''version'' (JStr v) kp)) 2),
        trace := trace w @
        [Repo_open ''.'',
         Git_push_delete (REMOTE E) v, Repo_delete_tag v,
         Git_add ''manifest.json'', Git_add ''manifest-beta.json'',
         Git_commit (''version: bump the version to '' @ v),
         Git_push (vt = ''force''), Repo_create_tag v, Repo_remote (REMOTE E),
         Remote_push (REMOTE E) v,
         Print ''Waiting for GitHub to create the release...'', Sleep 30,
         Github_get_repo ''no-instructions/relay'', Repo_get_releases ''no-instructions/relay'',
         Print (if v \<in> set (release_tags E)
                then ''Release '' @ v @ '' created successfully.''
                else ''Release '' @ v @ '' not found.'')]\<rparr>)"
proof -
  from ext have repo: "raises E (Repo_open ''.'') = None"
    and sw: "\<forall>a \<in> set [Git_push_delete (REMOTE E) v, Repo_delete_tag v,
                 Git_commit (''version: bump the version to '' @ v)].
               raises E a \<in> {None, Some GitCommandError}"
    and ok: "\<forall>a \<in> set [Git_add ''manifest.json'', Git_add ''manifest-beta.json'',
                 Git_push (vt = ''force''), Repo_create_tag v, Repo_remote (REMOTE E),
                 Remote_push (REMOTE E) v, Github_get_repo ''no-instructions/relay'',
                 Repo_get_releases ''no-instructions/relay'']. raises E a = None"
    unfolding externals_succeed_def by blast+
  show ?thesis
    unfolding main_manifests [OF beta mode v primary repo]
    by (simp add: after_manifests_run [OF sw ok])
qed

lemma files_kept_bind:
  "files_kept m \<Longrightarrow> (\<And>x. files_kept (f x)) \<Longrightarrow> files_kept (bind m f)"
  unfolding files_kept_def bind_def
  by (auto split: prod.splits sum.splits) (metis snd_conv)+

lemma files_kept_call: "files_kept (call E a)"
  by (simp add: files_kept_def call_def split: option.splits)

lemma files_kept_try: "files_kept p \<Longrightarrow> files_kept (try_except_GitCommandError p)"
  unfolding files_kept_def try_except_GitCommandError_def
  by (auto split: prod.splits sum.splits error.splits) (metis snd_conv)+

lemma files_kept_print: "files_kept (print s)"
  by (simp add: files_kept_def print_def)

lemma files_kept_sleep: "files_kept (sleep n)"
  by (simp add: files_kept_def sleep_def)

lemma files_kept_return: "files_kept (return x)"
  by (simp add: files_kept_def return_def)

lemma files_kept_after_manifests: "files_kept (after_manifests E vt v)"
  unfolding after_manifests_def delete_tag_def get_releases_def
  by (intro files_kept_bind files_kept_call files_kept_try files_kept_print files_kept_sleep
        files_kept_return) (simp_all add: files_kept_print)

lemma trace_grows_bind:
  "trace_grows m \<Longrightarrow> (\<And>x. trace_grows (f x)) \<Longrightarrow> trace_grows (bind m f)"
  unfolding trace_grows_def bind_def
  by (auto split: prod.splits sum.splits) (metis snd_conv prefix_order.order_trans)+

lemma trace_grows_call: "trace_grows (call E a)"
  by (simp add: trace_grows_def call_def split: option.splits)

lemma trace_grows_print: "trace_grows (print s)"
  by (simp add: trace_grows_def print_def)

lemma trace_grows_sleep: "trace_grows (sleep n)"
  by (simp add: trace_grows_def sleep_def)

lemma trace_grows_return: "trace_grows (return x)"
  by (simp add: trace_grows_def return_def)

lemma trace_grows_try: "trace_grows p \<Longrightarrow> trace_grows (try_except_GitCommandError p)"
  unfolding trace_grows_def try_except_GitCommandError_def
  by (auto split: prod.splits sum.splits error.splits) (metis snd_conv)+

lemma call_then_grows:
  assumes "\<And>x. trace_grows (f x)" and "t = trace w @ [a]"
  shows "prefix t (trace (snd (bind (call E a) f w)))"
proof (cases "raises E a")
  case None
  have "prefix (trace (w\<lparr>trace := trace w @ [a]\<rparr>)) (trace (snd (f () (w\<lparr>trace := trace w @ [a]\<rparr>))))"
    using assms(1) unfolding trace_grows_def by blast
  then show ?thesis using None assms(2) by (simp add: bind_def call_def)
next
  case (Some e)
  then show ?thesis using assms(2) by (simp add: bind_def call_def)
qed

lemma after_manifests_reaches_push:
  assumes sw: "\<forall>a \<in> set [Git_push_delete (REMOTE E) v, Repo_delete_tag v,
                 Git_commit (''version: bump the version to '' @ v)].
               raises E a \<in> {None, Some GitCommandError}"
    and ok: "\<forall>a \<in> set [Git_add ''manifest.json'', Git_add ''manifest-beta.json'']. raises E a = None"
  shows "prefix (trace w @
        [Git_push_delete (REMOTE E) v, Repo_delete_tag v,
         Git_add ''manifest.json'', Git_add ''manifest-beta.json'',
         Git_commit (''version: bump the version to '' @ v),
         Git_push (vt = ''force'')])
      (trace (snd (after_manifests E vt v w)))"
proof -
  define msg where "msg = ''version: bump the version to '' @ v"
  let ?w1 = "w\<lparr>trace := trace w @ [Git_push_delete (REMOTE E) v, Repo_delete_tag v]\<rparr>"
  let ?w2 = "?w1\<lparr>trace := trace ?w1 @ [Git_add ''manifest.json'']\<rparr>"
  let ?w3 = "?w2\<lparr>trace := trace ?w2 @ [Git_add ''manifest-beta.json'']\<rparr>"
  let ?w4 = "?w3\<lparr>trace := trace ?w3 @ [Git_commit msg]\<rparr>"
  have A: "bind (delete_tag E v) F w = F () ?w1" for F :: "unit \<Rightarrow> unit prog"
    using sw by (simp add: bind_def delete_tag_swallows)
  have B: "bind (call E (Git_add ''manifest.json'')) F ?w1 = F () ?w2" for F :: "unit \<Rightarrow> unit prog"
    using ok by (simp add: bind_def call_ok)
  have C: "bind (call E (Git_add ''manifest-beta.json'')) F ?w2 = F () ?w3" for F :: "unit \<Rightarrow> unit prog"
    using ok by (simp add: bind_def call_ok)
  have D: "bind (try_except_GitCommandError (call E (Git_commit msg))) F ?w3 = F () ?w4"
    for F :: "unit \<Rightarrow> unit prog"
    using sw by (simp add: bind_def try_call msg_def)
  have t: "trace w @
        [Git_push_delete (REMOTE E) v, Repo_delete_tag v,
         Git_add ''manifest.json'', Git_add ''manifest-beta.json'',
         Git_commit msg, Git_push (vt = ''force'')] = trace ?w4 @ [Git_push (vt = ''force'')]"
    by simp
  show ?thesis
    unfolding after_manifests_def msg_def [symmetric] get_releases_def
    apply (simp only: A B C D)
    apply (rule call_then_grows [OF _ t])
    apply (intro trace_grows_bind trace_grows_call trace_grows_print trace_grows_sleep
        trace_grows_return)
    apply (simp_all add: trace_grows_print)
    done
qed

lemma bump_version_unparsed:
  assumes "files w file_path = Some content" "json_loads E content = Some (JObj kvs)"
    and "map_of kvs ''version'' = Some (JStr cv)"
    and "unpack_map_int (split cv (CHR ''.'')) = Inl e"
  shows "bump_version E file_path vt w = (Inl e, w)"
  using assms
  by (simp add: bump_version_def bind_def json_load_def liftE_def getitem_def
        split_version_def bindE_def)

lemma bump_version_Inl:
  assumes "bump_version E file_path vt w = (Inl e, w')"
  shows "w' = w"
  using assms
  by (auto simp: bump_version_def bind_def json_load_def liftE_def getitem_def setitem_def
        split_version_def bindE_def json_dump_eq return_eq Let_def
      split: option.splits sum.splits prod.splits if_splits json.splits)

lemma externals_quiet: "externals_succeed quiet_env vt v"
  by (simp add: externals_succeed_def quiet_env_def)

lemma externals_failing_git: "externals_succeed failing_git_env vt v"
  by (simp add: externals_succeed_def failing_git_env_def)

section \<open>Further facts used by the claims\<close>

lemma call_files: "call E a w = (r, w') \<Longrightarrow> w' = w\<lparr>trace := trace w @ [a]\<rparr>"
  by (auto simp: call_def split: option.splits)

lemma join_indent:
  "xs \<noteq> [] \<Longrightarrow> p @ join (s @ p) xs = join s (map ((@) p) xs)"
  by (induction "s @ p" xs rule: join.induct) auto

lemma json_dumps_object_layout:
  assumes "kvs \<noteq> []"
  shows "json_dumps (JObj kvs) 2 =
     ''{'' @ join '','' (map (\<lambda>kv. CHR 0x0A # ''  '' @ encode_str (fst kv) @ '': '' @ encode 2 1 (snd kv)) kvs)
         @ [CHR 0x0A, CHR ''}'']"
proof -
  let ?items = "map (\<lambda>kv. encode_str (fst kv) @ '': '' @ encode 2 (0 + 1) (snd kv)) kvs"
  have n: "newline_indent 2 (Suc 0) = CHR 0x0A # ''  ''" "newline_indent 2 0 = [CHR 0x0A]"
    by (simp_all add: newline_indent_def numeral_2_eq_2)
  have "?items \<noteq> []" using assms by simp
  then have "newline_indent 2 (0 + 1) @ join ('','' @ newline_indent 2 (0 + 1)) ?items
           = join '','' (map ((@) (newline_indent 2 (0 + 1))) ?items)"
    by (rule join_indent)
  then show ?thesis
    using assms by (simp add: json_dumps_def n comp_def)
qed

lemma py_str_negative: "i < 0 \<Longrightarrow> CHR ''-'' \<in> set (py_str i)"
  by (simp add: py_str_def)

lemma event_loop_eq:
  "event_loop out events =
     out @ map (\<lambda>(h, type_names, path, filename). ''Modified file: '' @ path @ ''/'' @ filename)
              (filter (\<lambda>(h, type_names, path, filename). ''IN_MODIFY'' \<in> set type_names) events)"
  by (induction out events rule: event_loop.induct) simp_all

section \<open>Facts about the example inputs\<close>

lemma example_world_simps:
  "files (example_world tb tp) ''manifest-beta.json'' = Some tb"
  "files (example_world tb tp) ''manifest.json'' = Some tp"
  "trace (example_world tb tp) = []"
  by (simp_all add: example_world_def)

lemma example_env_simps:
  "json_loads quiet_env = map_of example_docs"
  "json_loads failing_git_env = map_of example_docs"
  "REMOTE quiet_env = ''origin''"
  "REMOTE failing_git_env = ''upstream''"
  "raises quiet_env a = None"
  by (simp_all add: quiet_env_def failing_git_env_def REMOTE_def)

lemma example_docs_simps:
  \<open>map_of example_docs ''{"version": "1.2.3", "name": "relay"}''
     = Some (JObj [(''version'', JStr ''1.2.3''), (''name'', JStr ''relay'')])\<close>
  \<open>map_of example_docs ''{"version": "1.2.3"}'' = Some (JObj [(''version'', JStr ''1.2.3'')])\<close>
  \<open>map_of example_docs ''{"version": "1.0.0"}'' = Some (JObj [(''version'', JStr ''1.0.0'')])\<close>
  \<open>map_of example_docs ''{"version": "1.2"}'' = Some (JObj [(''version'', JStr ''1.2'')])\<close>
  \<open>map_of example_docs ''{"version": "1.2.3.4"}'' = Some (JObj [(''version'', JStr ''1.2.3.4'')])\<close>
  \<open>map_of example_docs ''{"version": "01.2.3"}'' = Some (JObj [(''version'', JStr ''01.2.3'')])\<close>
  \<open>map_of example_docs ''{"version": "-1.2.3"}'' = Some (JObj [(''version'', JStr ''-1.2.3'')])\<close>
  by (simp_all add: example_docs_def)

lemma example_world_rewritten:
  "(example_world tb tp)
     \<lparr>files := (files (example_world tb tp))(''manifest-beta.json'' \<mapsto> ob, ''manifest.json'' \<mapsto> op),
      trace := t\<rparr>
   = (example_world ob op)\<lparr>trace := t\<rparr>"
  by (simp add: example_world_def fun_eq_iff)

lemma example_main_run:
  assumes "map_of example_docs tb = Some (JObj kb)" "map_of kb ''version'' = Some (JStr cv)"
    and "unpack_map_int (split cv (CHR ''.'')) = Inr (M, m, p)"
    and "(vt, a, b, c) \<in> {(''major'', M + 1, 0, 0), (''minor'', M, m + 1, 0),
                           (''patch'', M, m, p + 1), (''force'', M, m, p)}"
    and "v = format_version a b c"
    and "map_of example_docs tp = Some (JObj kp)"
    and "E = quiet_env \<or> E = failing_git_env"
  shows "main E vt (example_world tb tp) =
     (Inr (),
      (example_world (json_dumps (JObj (AList.update ''version'' (JStr v) kb)) 2)
                     (json_dumps (JObj (AList.update ''version'' (JStr v) kp)) 2))
        \<lparr>trace :=
        [Repo_open ''.'',
         Git_push_delete (REMOTE E) v, Repo_delete_tag v,
         Git_add ''manifest.json'', Git_add ''manifest-beta.json'',
         Git_commit (''version: bump the version to '' @ v),
         Git_push (vt = ''force''), Repo_create_tag v, Repo_remote (REMOTE E),
         Remote_push (REMOTE E) v,
         Print ''Waiting for GitHub to create the release...'', Sleep 30,
         Github_get_repo ''no-instructions/relay'', Repo_get_releases ''no-instructions/relay'',
         Print (if v \<in> set (release_tags E)
                then ''Release '' @ v @ '' created successfully.''
                else ''Release '' @ v @ '' not found.'')]\<rparr>)"
proof -
  have l: "json_loads E = map_of example_docs"
    using assms(7) by (auto simp: example_env_simps)
  have e: "externals_succeed E vt v"
    using assms(7) externals_quiet externals_failing_git by blast
  have lb: "json_loads E tb = Some (JObj kb)" and lp: "json_loads E tp = Some (JObj kp)"
    using assms(1,6) by (simp_all add: l)
  have "files (example_world tb tp) ''manifest-beta.json'' = Some tb"
    "files (example_world tb tp) ''manifest.json'' = Some tp"
    by (simp_all add: example_world_simps)
  from main_run [OF this(1) lb assms(2,3,4,5) this(2) lp e]
  show ?thesis
    by (simp only: example_world_rewritten example_world_simps append_Nil)
qed

lemma example_versions:
  "unpack_map_int (split ''1.2.3'' (CHR ''.'')) = Inr (1, 2, 3)"
  "unpack_map_int (split ''-1.2.3'' (CHR ''.'')) = Inr (- 1, 2, 3)"
  "unpack_map_int (split ''01.2.3'' (CHR ''.'')) = Inr (1, 2, 3)"
  "format_version 1 2 3 = ''1.2.3''"
  "format_version 1 3 0 = ''1.3.0''"
  "format_version (- 1) 2 4 = ''-1.2.4''"
  by code_simp+

lemma example_texts:
  \<open>json_dumps (JObj [(''version'', JStr ''1.3.0''), (''name'', JStr ''relay'')]) 2
     = ''{\<newline>  "version": "1.3.0",\<newline>  "name": "relay"\<newline>}''\<close>
  \<open>json_dumps (JObj [(''version'', JStr ''1.3.0'')]) 2 = ''{\<newline>  "version": "1.3.0"\<newline>}''\<close>
  \<open>json_dumps (JObj [(''version'', JStr ''1.2.3'')]) 2 = ''{\<newline>  "version": "1.2.3"\<newline>}''\<close>
  \<open>json_dumps (JObj [(''version'', JStr ''-1.2.4'')]) 2 = ''{\<newline>  "version": "-1.2.4"\<newline>}''\<close>
  \<open>json_dumps (JObj [(''version'', JStr ''2.0.0''), (''name'', JStr ''relay'')]) 2
     = ''{\<newline>  "version": "2.0.0",\<newline>  "name": "relay"\<newline>}''\<close>
  by code_simp+

lemma example_minor_run:
  assumes "E = quiet_env \<or> E = failing_git_env"
  shows \<open>main E ''minor'' (example_world ''{"version": "1.2.3", "name": "relay"}'' ''{"version": "1.0.0"}'')
     = (Inr (),
        (example_world ''{\<newline>  "version": "1.3.0",\<newline>  "name": "relay"\<newline>}''
                       ''{\<newline>  "version": "1.3.0"\<newline>}'')
        \<lparr>trace :=
          [Repo_open ''.'',
           Git_push_delete (REMOTE E) ''1.3.0'', Repo_delete_tag ''1.3.0'',
           Git_add ''manifest.json'', Git_add ''manifest-beta.json'',
           Git_commit ''version: bump the version to 1.3.0'',
           Git_push False, Repo_create_tag ''1.3.0'', Repo_remote (REMOTE E),
           Remote_push (REMOTE E) ''1.3.0'',
           Print ''Waiting for GitHub to create the release...'', Sleep 30,
           Github_get_repo ''no-instructions/relay'', Repo_get_releases ''no-instructions/relay'',
           Print (if ''1.3.0'' \<in> set (release_tags E)
                  then ''Release 1.3.0 created successfully.''
                  else ''Release 1.3.0 not found.'')]\<rparr>)\<close>
proof -
  have mode: "(''minor'', 1, 3, 0) \<in> {(''major'', 1 + 1, 0, 0), (''minor'', 1, 2 + 1, 0),
                           (''patch'', 1, 2, 3 + 1), (''force'', 1, 2, (3::int))}"
    by simp
  have k: "map_of [(''version'', JStr ''1.2.3''), (''name'', JStr ''relay'')] ''version''
             = Some (JStr ''1.2.3'')"
    by simp
  have u: "AList.update ''version'' (JStr ''1.3.0'')
             [(''version'', JStr ''1.2.3''), (''name'', JStr ''relay'')]
           = [(''version'', JStr ''1.3.0''), (''name'', JStr ''relay'')]"
    "AList.update ''version'' (JStr ''1.3.0'') [(''version'', JStr ''1.0.0'')]
           = [(''version'', JStr ''1.3.0'')]"
    by simp_all
  from example_main_run [OF example_docs_simps(1) k example_versions(1) mode
      example_versions(5) [symmetric] example_docs_simps(3) assms]
  show ?thesis
    unfolding u example_texts by simp
qed

lemma example_force_run:
  assumes \<open>tp = ''{"version": "1.0.0"}'' \<or> tp = ''{"version": "1.2.3"}''\<close>
  shows \<open>main quiet_env ''force'' (example_world ''{"version": "1.2.3"}'' tp)
     = (Inr (),
        (example_world ''{\<newline>  "version": "1.2.3"\<newline>}'' ''{\<newline>  "version": "1.2.3"\<newline>}'')
        \<lparr>trace :=
          [Repo_open ''.'',
           Git_push_delete ''origin'' ''1.2.3'', Repo_delete_tag ''1.2.3'',
           Git_add ''manifest.json'', Git_add ''manifest-beta.json'',
           Git_commit ''version: bump the version to 1.2.3'',
           Git_push True, Repo_create_tag ''1.2.3'', Repo_remote ''origin'',
           Remote_push ''origin'' ''1.2.3'',
           Print ''Waiting for GitHub to create the release...'', Sleep 30,
           Github_get_repo ''no-instructions/relay'', Repo_get_releases ''no-instructions/relay'',
           Print ''Release 1.2.3 created successfully.'']\<rparr>)\<close>
proof -
  have mode: "(''force'', 1, 2, 3) \<in> {(''major'', 1 + 1, 0, 0), (''minor'', 1, 2 + 1, 0),
                           (''patch'', 1, 2, 3 + 1), (''force'', 1, 2, (3::int))}"
    by simp
  have k: "map_of [(''version'', JStr ''1.2.3'')] ''version'' = Some (JStr ''1.2.3'')"
    by simp
  from assms obtain x where
    p: "map_of example_docs tp = Some (JObj [(''version'', JStr x)])"
    using example_docs_simps(2,3) by blast
  have u: "AList.update ''version'' (JStr ''1.2.3'') [(''version'', JStr y)]
           = [(''version'', JStr ''1.2.3'')]" for y
    by simp
  have r: "release_tags quiet_env = [''1.2.3'', ''1.3.0'']"
    by (simp add: quiet_env_def)
  from example_main_run [OF example_docs_simps(2) k example_versions(1) mode
      example_versions(4) [symmetric] p, of quiet_env]
  show ?thesis
    unfolding u example_texts by (simp add: example_env_simps r)
qed

lemma beta_relay_facts:
  \<open>files (example_world ''{"version": "1.2.3", "name": "relay"}'' tp) ''manifest-beta.json''
     = Some ''{"version": "1.2.3", "name": "relay"}''\<close>
  \<open>json_loads quiet_env ''{"version": "1.2.3", "name": "relay"}''
     = Some (JObj [(''version'', JStr ''1.2.3''), (''name'', JStr ''relay'')])\<close>
  \<open>json_loads failing_git_env ''{"version": "1.2.3", "name": "relay"}''
     = Some (JObj [(''version'', JStr ''1.2.3''), (''name'', JStr ''relay'')])\<close>
  \<open>map_of [(''version'', JStr ''1.2.3''), (''name'', JStr ''relay'')] ''version''
     = Some (JStr ''1.2.3'')\<close>
  \<open>(''minor'', 1, 3, 0) \<in> {(''major'', 1 + 1, 0, 0), (''minor'', 1, 2 + 1, 0),
                           (''patch'', 1, 2, 3 + 1), (''force'', 1, 2, (3::int))}\<close>
  by (simp_all add: example_world_simps example_env_simps example_docs_simps)

lemma primary_100_facts:
  \<open>files (example_world tb ''{"version": "1.0.0"}'') ''manifest.json'' = Some ''{"version": "1.0.0"}''\<close>
  \<open>json_loads quiet_env ''{"version": "1.0.0"}'' = Some (JObj [(''version'', JStr ''1.0.0'')])\<close>
  \<open>json_loads failing_git_env ''{"version": "1.0.0"}'' = Some (JObj [(''version'', JStr ''1.0.0'')])\<close>
  by (simp_all add: example_world_simps example_env_simps example_docs_simps)

section \<open>Claims about the version bumper\<close>

text \<open>
  C1. For every manifest whose version field parses as three integers \<open>M.m.p\<close>,
  \<^verbatim>\<open>bump_version\<close> returns, and writes into the version field of the manifest, exactly
  \<open>(M+1).0.0\<close> for mode major, \<open>M.(m+1).0\<close> for mode minor and \<open>M.m.(p+1)\<close> for
  mode patch. The result is a function of the manifest and the mode, and the new version
  string again splits into exactly three parts that \<^verbatim>\<open>int\<close> reads back as the three
  new components.
\<close>

theorem bump_version_increments:
  assumes "files w file_path = Some content" "json_loads E content = Some (JObj kvs)"
    and "map_of kvs ''version'' = Some (JStr cv)"
    and "unpack_map_int (split cv (CHR ''.'')) = Inr (M, m, p)"
  shows "bump_version E file_path ''major'' w =
           (Inr (format_version (M + 1) 0 0),
            w\<lparr>files := (files w)(file_path \<mapsto>
              json_dumps (JObj (AList.update ''version'' (JStr (format_version (M + 1) 0 0)) kvs)) 2)\<rparr>)
       \<and> bump_version E file_path ''minor'' w =
           (Inr (format_version M (m + 1) 0),
            w\<lparr>files := (files w)(file_path \<mapsto>
              json_dumps (JObj (AList.update ''version'' (JStr (format_version M (m + 1) 0)) kvs)) 2)\<rparr>)
       \<and> bump_version E file_path ''patch'' w =
           (Inr (format_version M m (p + 1)),
            w\<lparr>files := (files w)(file_path \<mapsto>
              json_dumps (JObj (AList.update ''version'' (JStr (format_version M m (p + 1))) kvs)) 2)\<rparr>)
       \<and> unpack_map_int (split (format_version (M + 1) 0 0) (CHR ''.'')) = Inr (M + 1, 0, 0)
       \<and> unpack_map_int (split (format_version M (m + 1) 0) (CHR ''.'')) = Inr (M, m + 1, 0)
       \<and> unpack_map_int (split (format_version M m (p + 1)) (CHR ''.'')) = Inr (M, m, p + 1)"
  by (simp add: bump_version_ok [OF assms] unpack_format_version)

text \<open>The scenario of the specification: \<^verbatim>\<open>1.2.3\<close> with mode minor becomes
  \<^verbatim>\<open>1.3.0\<close>, and the other field of the manifest is written back.\<close>

theorem bump_version_increments_witness:
  \<open>bump_version quiet_env ''manifest-beta.json'' ''minor''
       (example_world ''{"version": "1.2.3", "name": "relay"}'' ''{"version": "1.0.0"}'')
     = (Inr ''1.3.0'',
        (example_world ''{"version": "1.2.3", "name": "relay"}'' ''{"version": "1.0.0"}'')
          \<lparr>files := (files (example_world ''{"version": "1.2.3", "name": "relay"}''
                                ''{"version": "1.0.0"}''))
             (''manifest-beta.json'' \<mapsto>
                ''{\<newline>  "version": "1.3.0",\<newline>  "name": "relay"\<newline>}'')\<rparr>)\<close>
proof -
  let ?w = \<open>example_world ''{"version": "1.2.3", "name": "relay"}'' ''{"version": "1.0.0"}''\<close>
  have 1: \<open>files ?w ''manifest-beta.json'' = Some ''{"version": "1.2.3", "name": "relay"}''\<close>
    by (simp add: example_world_def)
  have 2: \<open>json_loads quiet_env ''{"version": "1.2.3", "name": "relay"}''
             = Some (JObj [(''version'', JStr ''1.2.3''), (''name'', JStr ''relay'')])\<close>
    by (simp add: quiet_env_def example_docs_def)
  have 3: "map_of [(''version'', JStr ''1.2.3''), (''name'', JStr ''relay'')] ''version''
             = Some (JStr ''1.2.3'')"
    by simp
  have 4: "unpack_map_int (split ''1.2.3'' (CHR ''.'')) = Inr (1, 2, 3)"
    by code_simp
  have 5: "format_version 1 (2 + 1) 0 = ''1.3.0''"
    by code_simp
  have 6: "AList.update ''version'' (JStr ''1.3.0'')
             [(''version'', JStr ''1.2.3''), (''name'', JStr ''relay'')]
           = [(''version'', JStr ''1.3.0''), (''name'', JStr ''relay'')]"
    by simp
  have 7: \<open>json_dumps (JObj [(''version'', JStr ''1.3.0''), (''name'', JStr ''relay'')]) 2
             = ''{\<newline>  "version": "1.3.0",\<newline>  "name": "relay"\<newline>}''\<close>
    by code_simp
  from bump_version_increments [OF 1 2 3 4]
  have "bump_version quiet_env ''manifest-beta.json'' ''minor'' ?w =
           (Inr (format_version 1 (2 + 1) 0),
            ?w\<lparr>files := (files ?w)(''manifest-beta.json'' \<mapsto>
              json_dumps (JObj (AList.update ''version'' (JStr (format_version 1 (2 + 1) 0))
                 [(''version'', JStr ''1.2.3''), (''name'', JStr ''relay'')])) 2)\<rparr>)"
    by blast
  then show ?thesis
    unfolding 5 6 7 .
qed

text \<open>
  C2, as the code has it. For every beta manifest whose version string is the rendering
  \<^verbatim>\<open>f"{M}.{m}.{p}"\<close> of three integers, mode force returns that same string and
  writes the beta manifest's document back with its version field as it was; the primary
  manifest's version field is set to that string, so it is unchanged exactly when the
  primary manifest already held it; and the branch push of the run is
  \<^verbatim>\<open>repo.git.push(force=True)\<close>.
\<close>

theorem force_keeps_version:
  assumes "files w ''manifest-beta.json'' = Some tb" "json_loads E tb = Some (JObj kb)"
    and "map_of kb ''version'' = Some (JStr (format_version M m p))"
    and "files w ''manifest.json'' = Some tp" "json_loads E tp = Some (JObj kp)"
    and "externals_succeed E ''force'' (format_version M m p)"
  shows "bump_version E ''manifest-beta.json'' ''force'' w =
           (Inr (format_version M m p),
            w\<lparr>files := (files w)(''manifest-beta.json'' \<mapsto> json_dumps (JObj kb) 2)\<rparr>)
       \<and> main E ''force'' w =
           (Inr (),
            w\<lparr>files := (files w)
                 (''manifest-beta.json'' \<mapsto> json_dumps (JObj kb) 2,
                  ''manifest.json'' \<mapsto>
                     json_dumps (JObj (AList.update ''version'' (JStr (format_version M m p)) kp)) 2),
              trace := trace w @
                [Repo_open ''.'',
                 Git_push_delete (REMOTE E) (format_version M m p),
                 Repo_delete_tag (format_version M m p),
                 Git_add ''manifest.json'', Git_add ''manifest-beta.json'',
                 Git_commit (''version: bump the version to '' @ format_version M m p),
                 Git_push True,
                 Repo_create_tag (format_version M m p), Repo_remote (REMOTE E),
                 Remote_push (REMOTE E) (format_version M m p),
                 Print ''Waiting for GitHub to create the release...'', Sleep 30,
                 Github_get_repo ''no-instructions/relay'',
                 Repo_get_releases ''no-instructions/relay'',
                 Print (if format_version M m p \<in> set (release_tags E)
                        then ''Release '' @ format_version M m p @ '' created successfully.''
                        else ''Release '' @ format_version M m p @ '' not found.'')]\<rparr>)
       \<and> (map_of kp ''version'' = Some (JStr (format_version M m p)) \<longleftrightarrow>
            AList.update ''version'' (JStr (format_version M m p)) kp = kp)"
proof -
  let ?v = "format_version M m p"
  have u: "unpack_map_int (split ?v (CHR ''.'')) = Inr (M, m, p)"
    by (rule unpack_format_version)
  have mode: "(''force'', M, m, p) \<in> {(''major'', M + 1, 0, 0), (''minor'', M, m + 1, 0),
                           (''patch'', M, m, p + 1), (''force'', M, m, p)}"
    by simp
  have kb: "AList.update ''version'' (JStr ?v) kb = kb"
    using assms(3) by (rule update_triv)
  have 1: "bump_version E ''manifest-beta.json'' ''force'' w =
           (Inr ?v, w\<lparr>files := (files w)(''manifest-beta.json'' \<mapsto> json_dumps (JObj kb) 2)\<rparr>)"
    using bump_version_ok [OF assms(1-3) u mode] by (simp add: kb)
  have 2: "main E ''force'' w =
           (Inr (),
            w\<lparr>files := (files w)
                 (''manifest-beta.json'' \<mapsto> json_dumps (JObj kb) 2,
                  ''manifest.json'' \<mapsto> json_dumps (JObj (AList.update ''version'' (JStr ?v) kp)) 2),
              trace := trace w @
                [Repo_open ''.'',
                 Git_push_delete (REMOTE E) ?v, Repo_delete_tag ?v,
                 Git_add ''manifest.json'', Git_add ''manifest-beta.json'',
                 Git_commit (''version: bump the version to '' @ ?v),
                 Git_push True,
                 Repo_create_tag ?v, Repo_remote (REMOTE E), Remote_push (REMOTE E) ?v,
                 Print ''Waiting for GitHub to create the release...'', Sleep 30,
                 Github_get_repo ''no-instructions/relay'',
                 Repo_get_releases ''no-instructions/relay'',
                 Print (if ?v \<in> set (release_tags E)
                        then ''Release '' @ ?v @ '' created successfully.''
                        else ''Release '' @ ?v @ '' not found.'')]\<rparr>)"
    using main_run [OF assms(1-3) u mode refl assms(4-6)] by (simp add: kb)
  have 3: "map_of kp ''version'' = Some (JStr ?v) \<longleftrightarrow> AList.update ''version'' (JStr ?v) kp = kp"
  proof
    assume "map_of kp ''version'' = Some (JStr ?v)"
    then show "AList.update ''version'' (JStr ?v) kp = kp" by (rule update_triv)
  next
    assume "AList.update ''version'' (JStr ?v) kp = kp"
    then have "map_of kp ''version'' = map_of (AList.update ''version'' (JStr ?v) kp) ''version''"
      by simp
    then show "map_of kp ''version'' = Some (JStr ?v)" by (simp add: update_conv')
  qed
  from 1 2 3 show ?thesis by blast
qed

theorem force_keeps_version_witness:
  \<open>bump_version quiet_env ''manifest-beta.json'' ''force''
       (example_world ''{"version": "1.2.3"}'' ''{"version": "1.2.3"}'')
     = (Inr ''1.2.3'',
        (example_world ''{"version": "1.2.3"}'' ''{"version": "1.2.3"}'')
          \<lparr>files := (files (example_world ''{"version": "1.2.3"}'' ''{"version": "1.2.3"}''))
             (''manifest-beta.json'' \<mapsto> ''{\<newline>  "version": "1.2.3"\<newline>}'')\<rparr>)
   \<and> fst (main quiet_env ''force'' (example_world ''{"version": "1.2.3"}'' ''{"version": "1.2.3"}''))
     = Inr ()
   \<and> files (snd (main quiet_env ''force''
                   (example_world ''{"version": "1.2.3"}'' ''{"version": "1.2.3"}'')))
     = [''manifest-beta.json'' \<mapsto> ''{\<newline>  "version": "1.2.3"\<newline>}'',
        ''manifest.json'' \<mapsto> ''{\<newline>  "version": "1.2.3"\<newline>}'']
   \<and> Git_push True \<in> set (trace (snd (main quiet_env ''force''
                   (example_world ''{"version": "1.2.3"}'' ''{"version": "1.2.3"}''))))
   \<and> AList.update ''version'' (JStr ''1.2.3'') [(''version'', JStr ''1.2.3'')]
     = [(''version'', JStr ''1.2.3'')]\<close>
proof -
  let ?w = \<open>example_world ''{"version": "1.2.3"}'' ''{"version": "1.2.3"}''\<close>
  have 1: \<open>files ?w ''manifest-beta.json'' = Some ''{"version": "1.2.3"}''\<close>
    and 4: \<open>files ?w ''manifest.json'' = Some ''{"version": "1.2.3"}''\<close>
    by (simp_all add: example_world_simps)
  have 2: \<open>json_loads quiet_env ''{"version": "1.2.3"}'' = Some (JObj [(''version'', JStr ''1.2.3'')])\<close>
    by (simp add: example_env_simps example_docs_simps)
  have 3: "map_of [(''version'', JStr ''1.2.3'')] ''version'' = Some (JStr (format_version 1 2 3))"
    by (simp add: example_versions)
  have u: "AList.update ''version'' (JStr ''1.2.3'') [(''version'', JStr ''1.2.3'')]
           = [(''version'', JStr ''1.2.3'')]"
    by simp
  note T = force_keeps_version [OF 1 2 3 4 2 externals_quiet,
      unfolded example_versions u example_texts]
  have f: "(files (example_world tb tp))(''manifest-beta.json'' \<mapsto> x, ''manifest.json'' \<mapsto> y)
      = [''manifest-beta.json'' \<mapsto> x, ''manifest.json'' \<mapsto> y]" for tb tp x y
    by (simp add: example_world_def fun_eq_iff)
  from T have \<open>bump_version quiet_env ''manifest-beta.json'' ''force'' ?w
      = (Inr ''1.2.3'',
         ?w\<lparr>files := (files ?w)(''manifest-beta.json'' \<mapsto> ''{\<newline>  "version": "1.2.3"\<newline>}'')\<rparr>)\<close>
    by simp
  moreover from T have "fst (main quiet_env ''force'' ?w) = Inr ()"
    \<open>files (snd (main quiet_env ''force'' ?w))
       = [''manifest-beta.json'' \<mapsto> ''{\<newline>  "version": "1.2.3"\<newline>}'',
          ''manifest.json'' \<mapsto> ''{\<newline>  "version": "1.2.3"\<newline>}'']\<close>
    "Git_push True \<in> set (trace (snd (main quiet_env ''force'' ?w)))"
    by (simp_all add: f)
  moreover from T have "AList.update ''version'' (JStr ''1.2.3'') [(''version'', JStr ''1.2.3'')]
     = [(''version'', JStr ''1.2.3'')]"
    by simp
  ultimately show ?thesis by simp
qed

text \<open>
  C2 as it is stated does not hold for the primary manifest: with \<^verbatim>\<open>1.2.3\<close> in the
  beta manifest and \<^verbatim>\<open>1.0.0\<close> in the primary manifest, a run in mode force succeeds
  and leaves \<^verbatim>\<open>1.2.3\<close> in the primary manifest.
\<close>

theorem force_changes_primary_counterexample:
  \<open>files (example_world ''{"version": "1.2.3"}'' ''{"version": "1.0.0"}'') ''manifest.json''
     = Some ''{"version": "1.0.0"}''
   \<and> json_loads quiet_env ''{"version": "1.0.0"}'' = Some (JObj [(''version'', JStr ''1.0.0'')])
   \<and> fst (main quiet_env ''force'' (example_world ''{"version": "1.2.3"}'' ''{"version": "1.0.0"}''))
     = Inr ()
   \<and> files (snd (main quiet_env ''force''
                   (example_world ''{"version": "1.2.3"}'' ''{"version": "1.0.0"}'')))
        ''manifest.json''
     = Some ''{\<newline>  "version": "1.2.3"\<newline>}''
   \<and> json_dumps (JObj [(''version'', JStr ''1.2.3'')]) 2 = ''{\<newline>  "version": "1.2.3"\<newline>}''
   \<and> JStr ''1.2.3'' \<noteq> JStr ''1.0.0''\<close>
  by (simp add: example_force_run example_world_simps example_env_simps example_docs_simps
        example_texts)

text \<open>A version string that \<^verbatim>\<open>int\<close> accepts part by part but that is not the rendering
  of its three integers is rewritten in mode force: the leading zero of \<^verbatim>\<open>01.2.3\<close> is
  lost.\<close>

lemma force_normalises_leading_zero:
  \<open>fst (bump_version quiet_env ''manifest-beta.json'' ''force''
          (example_world ''{"version": "01.2.3"}'' ''{"version": "1.0.0"}''))
     = Inr ''1.2.3''\<close>
proof -
  let ?w = \<open>example_world ''{"version": "01.2.3"}'' ''{"version": "1.0.0"}''\<close>
  have 1: \<open>files ?w ''manifest-beta.json'' = Some ''{"version": "01.2.3"}''\<close>
    by (simp add: example_world_simps)
  have 2: \<open>json_loads quiet_env ''{"version": "01.2.3"}'' = Some (JObj [(''version'', JStr ''01.2.3'')])\<close>
    by (simp add: example_env_simps example_docs_simps)
  have 3: "map_of [(''version'', JStr ''01.2.3'')] ''version'' = Some (JStr ''01.2.3'')"
    by simp
  show ?thesis
    by (simp add: bump_version_parsed [OF 1 2 3 example_versions(3)] example_versions)
qed

text \<open>
  C3. For every mode outside major, minor, patch and force, and every manifest whose
  version field parses as three integers, \<^verbatim>\<open>bump_version\<close> raises the
  \<^verbatim>\<open>ValueError\<close> for an invalid version type and leaves the state as it was: no file
  is written. A run of \<^verbatim>\<open>main\<close> on such a beta manifest stops there (or already at
  opening the repository), so the primary manifest is not touched either.
\<close>

theorem invalid_version_type_raises:
  assumes "files w file_path = Some content" "json_loads E content = Some (JObj kvs)"
    and "map_of kvs ''version'' = Some (JStr cv)"
    and "unpack_map_int (split cv (CHR ''.'')) = Inr (M, m, p)"
    and "vt \<notin> {''major'', ''minor'', ''patch'', ''force''}"
  shows "bump_version E file_path vt w = (Inl (ValueError InvalidVersionType), w)
       \<and> (file_path = ''manifest-beta.json'' \<longrightarrow>
            main E vt w =
              (Inl (case raises E (Repo_open ''.'') of
                      None \<Rightarrow> ValueError InvalidVersionType | Some e \<Rightarrow> e),
               w\<lparr>trace := trace w @ [Repo_open ''.'']\<rparr>))"
proof -
  have b: "bump_version E file_path vt w' = (Inl (ValueError InvalidVersionType), w')"
    if "files w' = files w" for w'
    using assms(5) that by (simp add: bump_version_parsed [OF _ assms(2-4)] assms(1))
  show ?thesis
  proof (intro conjI impI)
    show "bump_version E file_path vt w = (Inl (ValueError InvalidVersionType), w)"
      using b by simp
  next
    assume fp: "file_path = ''manifest-beta.json''"
    let ?w1 = "w\<lparr>trace := trace w @ [Repo_open ''.'']\<rparr>"
    have "bump_version E ''manifest-beta.json'' vt ?w1 = (Inl (ValueError InvalidVersionType), ?w1)"
      using b [of ?w1] fp by simp
    then show "main E vt w =
              (Inl (case raises E (Repo_open ''.'') of
                      None \<Rightarrow> ValueError InvalidVersionType | Some e \<Rightarrow> e),
               w\<lparr>trace := trace w @ [Repo_open ''.'']\<rparr>)"
      by (simp add: main_alt bind_def call_def split: option.splits)
  qed
qed

theorem invalid_version_type_raises_witness:
  \<open>bump_version quiet_env ''manifest-beta.json'' ''bogus''
       (example_world ''{"version": "1.2.3"}'' ''{"version": "1.0.0"}'')
     = (Inl (ValueError InvalidVersionType),
        example_world ''{"version": "1.2.3"}'' ''{"version": "1.0.0"}'')
   \<and> main quiet_env ''bogus'' (example_world ''{"version": "1.2.3"}'' ''{"version": "1.0.0"}'')
     = (Inl (ValueError InvalidVersionType),
        (example_world ''{"version": "1.2.3"}'' ''{"version": "1.0.0"}'')
          \<lparr>trace := [Repo_open ''.'']\<rparr>)\<close>
proof -
  let ?w = \<open>example_world ''{"version": "1.2.3"}'' ''{"version": "1.0.0"}''\<close>
  have 1: \<open>files ?w ''manifest-beta.json'' = Some ''{"version": "1.2.3"}''\<close>
    by (simp add: example_world_simps)
  have 2: \<open>json_loads quiet_env ''{"version": "1.2.3"}'' = Some (JObj [(''version'', JStr ''1.2.3'')])\<close>
    by (simp add: example_env_simps example_docs_simps)
  have 3: "map_of [(''version'', JStr ''1.2.3'')] ''version'' = Some (JStr ''1.2.3'')"
    by simp
  have 4: "unpack_map_int (split ''1.2.3'' (CHR ''.'')) = Inr (1, 2, 3)"
    by code_simp
  have 5: "''bogus'' \<notin> {''major'', ''minor'', ''patch'', ''force''}"
    by simp
  from invalid_version_type_raises [OF 1 2 3 4 5]
  show ?thesis
    by (simp add: example_env_simps example_world_simps)
qed

text \<open>
  C4. After every successful run of \<^verbatim>\<open>main\<close>, in any mode, both manifests hold a
  document whose version field is the same string: the version \<^verbatim>\<open>bump_version\<close>
  returned and wrote to the beta manifest is the argument of \<^verbatim>\<open>set_version\<close>, which
  writes it into the primary manifest and returns it, and no later step touches a file.
\<close>

theorem manifests_agree_after_run:
  assumes "main E vt w = (Inr (), w')"
  shows "\<exists>v w2 w3 kb kp.
           bump_version E ''manifest-beta.json'' vt (w\<lparr>trace := trace w @ [Repo_open ''.'']\<rparr>)
             = (Inr v, w2)
         \<and> set_version E ''manifest.json'' v w2 = (Inr v, w3)
         \<and> files w' = files w3
         \<and> files w' ''manifest-beta.json'' = Some (json_dumps (JObj kb) 2)
         \<and> files w' ''manifest.json'' = Some (json_dumps (JObj kp) 2)
         \<and> map_of kb ''version'' = Some (JStr v)
         \<and> map_of kp ''version'' = Some (JStr v)"
proof -
  from assms obtain u w1 v w2 v' w3 where
    1: "call E (Repo_open ''.'') w = (Inr u, w1)" and
    2: "bump_version E ''manifest-beta.json'' vt w1 = (Inr v, w2)" and
    3: "set_version E ''manifest.json'' v w2 = (Inr v', w3)" and
    4: "after_manifests E vt v' w3 = (Inr (), w')"
    unfolding main_alt bind_eq_Inr_iff by blast
  from 1 have w1: "w1 = w\<lparr>trace := trace w @ [Repo_open ''.'']\<rparr>"
    by (rule call_files)
  from bump_version_Inr [OF 2] obtain kb0 where
    w2: "w2 = w1\<lparr>files := (files w1)(''manifest-beta.json'' \<mapsto>
               json_dumps (JObj (AList.update ''version'' (JStr v) kb0)) 2)\<rparr>"
    by blast
  from set_version_Inr [OF 3] obtain kp0 where
    v': "v' = v" and
    w3: "w3 = w2\<lparr>files := (files w2)(''manifest.json'' \<mapsto>
               json_dumps (JObj (AList.update ''version'' (JStr v) kp0)) 2)\<rparr>"
    by blast
  have "files (snd (after_manifests E vt v' w3)) = files w3"
    using files_kept_after_manifests unfolding files_kept_def by blast
  with 4 have f: "files w' = files w3" by simp
  have "files w' ''manifest-beta.json''
          = Some (json_dumps (JObj (AList.update ''version'' (JStr v) kb0)) 2)"
    "files w' ''manifest.json''
          = Some (json_dumps (JObj (AList.update ''version'' (JStr v) kp0)) 2)"
    by (simp_all add: f w3 w2)
  moreover have "map_of (AList.update ''version'' (JStr v) kb0) ''version'' = Some (JStr v)"
    "map_of (AList.update ''version'' (JStr v) kp0) ''version'' = Some (JStr v)"
    by (simp_all add: update_conv')
  ultimately show ?thesis
    using 2 3 f unfolding w1 v' by blast
qed

theorem manifests_agree_after_run_witness:
  \<open>fst (main quiet_env ''minor''
          (example_world ''{"version": "1.2.3", "name": "relay"}'' ''{"version": "1.0.0"}''))
     = Inr ()
   \<and> (\<exists>v kb kp.
        files (snd (main quiet_env ''minor''
                 (example_world ''{"version": "1.2.3", "name": "relay"}'' ''{"version": "1.0.0"}'')))
            ''manifest-beta.json'' = Some (json_dumps (JObj kb) 2)
      \<and> files (snd (main quiet_env ''minor''
                 (example_world ''{"version": "1.2.3", "name": "relay"}'' ''{"version": "1.0.0"}'')))
            ''manifest.json'' = Some (json_dumps (JObj kp) 2)
      \<and> map_of kb ''version'' = Some (JStr v)
      \<and> map_of kp ''version'' = Some (JStr v))\<close>
proof -
  note run = example_minor_run [of quiet_env, OF disjI1, OF refl]
  from manifests_agree_after_run [OF run]
  show ?thesis unfolding run by auto
qed

text \<open>
  C5. For a manifest that is a JSON object with a version field, \<^verbatim>\<open>set_version\<close>
  and a successful \<^verbatim>\<open>bump_version\<close> rewrite the file as the same object with only the
  value of the version field replaced (a failing \<^verbatim>\<open>bump_version\<close> writes nothing):
  the keys and their order are the same, every other field keeps its value, and the text
  written puts every field on a line of its own, indented by two spaces.
\<close>

theorem only_version_field_rewritten:
  assumes "files w file_path = Some content" "json_loads E content = Some (JObj kvs)"
    and "''version'' \<in> fst ` set kvs"
  shows "set_version E file_path new_version w =
           (Inr new_version,
            w\<lparr>files := (files w)(file_path \<mapsto>
                 json_dumps (JObj (AList.update ''version'' (JStr new_version) kvs)) 2)\<rparr>)
       \<and> (bump_version E file_path version_type w = (Inr v, w') \<longrightarrow>
            w' = w\<lparr>files := (files w)(file_path \<mapsto>
                 json_dumps (JObj (AList.update ''version'' (JStr v) kvs)) 2)\<rparr>)
       \<and> (bump_version E file_path version_type w = (Inl e, w') \<longrightarrow> w' = w)
       \<and> map fst (AList.update ''version'' x kvs) = map fst kvs
       \<and> AList.delete ''version'' (AList.update ''version'' x kvs) = AList.delete ''version'' kvs
       \<and> (k \<noteq> ''version'' \<longrightarrow> map_of (AList.update ''version'' x kvs) k = map_of kvs k)
       \<and> json_dumps (JObj (AList.update ''version'' x kvs)) 2 =
            ''{'' @ join '',''
                     (map (\<lambda>kv. CHR 0x0A # ''  '' @ encode_str (fst kv) @ '': '' @ encode 2 1 (snd kv))
                          (AList.update ''version'' x kvs))
                @ [CHR 0x0A, CHR ''}'']"
proof (intro conjI impI)
  show "set_version E file_path new_version w =
           (Inr new_version,
            w\<lparr>files := (files w)(file_path \<mapsto>
                 json_dumps (JObj (AList.update ''version'' (JStr new_version) kvs)) 2)\<rparr>)"
    using assms(1,2) by (rule set_version_ok)
next
  assume "bump_version E file_path version_type w = (Inr v, w')"
  from bump_version_Inr [OF this] assms(1,2)
  show "w' = w\<lparr>files := (files w)(file_path \<mapsto>
                 json_dumps (JObj (AList.update ''version'' (JStr v) kvs)) 2)\<rparr>"
    by auto
next
  assume "bump_version E file_path version_type w = (Inl e, w')"
  then show "w' = w" by (rule bump_version_Inl)
next
  show "map fst (AList.update ''version'' x kvs) = map fst kvs"
    using assms(3) by (simp add: update_keys)
next
  show "AList.delete ''version'' (AList.update ''version'' x kvs) = AList.delete ''version'' kvs"
    by (rule delete_update_same)
next
  assume "k \<noteq> ''version''"
  then show "map_of (AList.update ''version'' x kvs) k = map_of kvs k"
    by (simp add: update_conv')
next
  show "json_dumps (JObj (AList.update ''version'' x kvs)) 2 =
            ''{'' @ join '',''
                     (map (\<lambda>kv. CHR 0x0A # ''  '' @ encode_str (fst kv) @ '': '' @ encode 2 1 (snd kv))
                          (AList.update ''version'' x kvs))
                @ [CHR 0x0A, CHR ''}'']"
    by (rule json_dumps_object_layout) simp
qed

theorem only_version_field_rewritten_witness:
  \<open>set_version quiet_env ''manifest-beta.json'' ''2.0.0''
       (example_world ''{"version": "1.2.3", "name": "relay"}'' ''{"version": "1.0.0"}'')
     = (Inr ''2.0.0'',
        (example_world ''{"version": "1.2.3", "name": "relay"}'' ''{"version": "1.0.0"}'')
          \<lparr>files := (files (example_world ''{"version": "1.2.3", "name": "relay"}''
                                ''{"version": "1.0.0"}''))
             (''manifest-beta.json'' \<mapsto>
                ''{\<newline>  "version": "2.0.0",\<newline>  "name": "relay"\<newline>}'')\<rparr>)
   \<and> map_of (AList.update ''version'' (JStr ''2.0.0'')
               [(''version'', JStr ''1.2.3''), (''name'', JStr ''relay'')]) ''name''
     = Some (JStr ''relay'')
   \<and> AList.delete ''version'' (AList.update ''version'' (JStr ''2.0.0'')
               [(''version'', JStr ''1.2.3''), (''name'', JStr ''relay'')])
     = [(''name'', JStr ''relay'')]
   \<and> snd (bump_version quiet_env ''manifest-beta.json'' ''minor''
             (example_world ''{"version": "1.2.3", "name": "relay"}'' ''{"version": "1.0.0"}''))
     = (example_world ''{"version": "1.2.3", "name": "relay"}'' ''{"version": "1.0.0"}'')
          \<lparr>files := (files (example_world ''{"version": "1.2.3", "name": "relay"}''
                                ''{"version": "1.0.0"}''))
             (''manifest-beta.json'' \<mapsto>
                ''{\<newline>  "version": "1.3.0",\<newline>  "name": "relay"\<newline>}'')\<rparr>
   \<and> snd (bump_version quiet_env ''manifest-beta.json'' ''bogus''
             (example_world ''{"version": "1.2.3", "name": "relay"}'' ''{"version": "1.0.0"}''))
     = example_world ''{"version": "1.2.3", "name": "relay"}'' ''{"version": "1.0.0"}''\<close>
proof -
  let ?w = \<open>example_world ''{"version": "1.2.3", "name": "relay"}'' ''{"version": "1.0.0"}''\<close>
  let ?kvs = "[(''version'', JStr ''1.2.3''), (''name'', JStr ''relay'')]"
  have 1: \<open>files ?w ''manifest-beta.json'' = Some ''{"version": "1.2.3", "name": "relay"}''\<close>
    by (simp add: example_world_simps)
  have 2: \<open>json_loads quiet_env ''{"version": "1.2.3", "name": "relay"}'' = Some (JObj ?kvs)\<close>
    by (simp add: example_env_simps example_docs_simps)
  have 3: "''version'' \<in> fst ` set ?kvs"
    by simp
  have k: "map_of ?kvs ''version'' = Some (JStr ''1.2.3'')"
    by simp
  have mode: "(''minor'', 1, 3, 0) \<in> {(''major'', 1 + 1, 0, 0), (''minor'', 1, 2 + 1, 0),
                           (''patch'', 1, 2, 3 + 1), (''force'', 1, 2, (3::int))}"
    by simp
  have bogus: "''bogus'' \<notin> {''major'', ''minor'', ''patch'', ''force''}"
    by simp
  have u: "AList.update ''version'' (JStr x) ?kvs = [(''version'', JStr x), (''name'', JStr ''relay'')]"
    for x by simp
  have ok: "bump_version quiet_env ''manifest-beta.json'' ''minor'' ?w
      = (Inr ''1.3.0'', snd (bump_version quiet_env ''manifest-beta.json'' ''minor'' ?w))"
    using bump_version_ok [OF 1 2 k example_versions(1) mode] by (simp add: example_versions)
  have bad: "bump_version quiet_env ''manifest-beta.json'' ''bogus'' ?w
      = (Inl (ValueError InvalidVersionType),
         snd (bump_version quiet_env ''manifest-beta.json'' ''bogus'' ?w))"
    using bogus by (simp add: bump_version_parsed [OF 1 2 k example_versions(1)])
  have name: "''name'' \<noteq> ''version''"
    by simp
  note T = only_version_field_rewritten [OF 1 2 3]
  from T [where new_version = "''2.0.0''" and version_type = "''minor''" and v = "''1.3.0''"
          and w' = "snd (bump_version quiet_env ''manifest-beta.json'' ''minor'' ?w)"
          and x = "JStr ''2.0.0''" and k = "''name''"]
    T [where version_type = "''bogus''" and e = "ValueError InvalidVersionType"
          and w' = "snd (bump_version quiet_env ''manifest-beta.json'' ''bogus'' ?w)"]
    ok bad name
  show ?thesis
    unfolding u example_texts by simp
qed

text \<open>
  C6. A \<^verbatim>\<open>GitCommandError\<close> raised by the remote tag deletion, by the local tag
  deletion or by the commit is caught: \<^verbatim>\<open>delete_tag\<close> makes both deletions and returns
  normally whichever of them fail in this way, and a run of \<^verbatim>\<open>main\<close> whose manifests
  are written goes on through the two \<^verbatim>\<open>git add\<close> calls and the commit to the branch
  push, whichever of the three guarded calls fail in this way. Deleting a tag that does not
  exist is such a failure of the git command.
\<close>

theorem git_command_errors_swallowed:
  assumes "files w ''manifest-beta.json'' = Some tb" "json_loads E tb = Some (JObj kb)"
    and "map_of kb ''version'' = Some (JStr cv)"
    and "unpack_map_int (split cv (CHR ''.'')) = Inr (M, m, p)"
    and "(vt, a, b, c) \<in> {(''major'', M + 1, 0, 0), (''minor'', M, m + 1, 0),
                           (''patch'', M, m, p + 1), (''force'', M, m, p)}"
    and "v = format_version a b c"
    and "files w ''manifest.json'' = Some tp" "json_loads E tp = Some (JObj kp)"
    and "raises E (Repo_open ''.'') = None"
    and "\<forall>x \<in> set [Git_push_delete (REMOTE E) v, Repo_delete_tag v,
                      Git_commit (''version: bump the version to '' @ v)].
           raises E x \<in> {None, Some GitCommandError}"
    and "\<forall>x \<in> set [Git_add ''manifest.json'', Git_add ''manifest-beta.json'']. raises E x = None"
  shows "(raises E (Git_push_delete (REMOTE E) tag_name) \<in> {None, Some GitCommandError} \<and>
          raises E (Repo_delete_tag tag_name) \<in> {None, Some GitCommandError} \<longrightarrow>
            delete_tag E tag_name w0 =
              (Inr (), w0\<lparr>trace := trace w0 @
                 [Git_push_delete (REMOTE E) tag_name, Repo_delete_tag tag_name]\<rparr>))
       \<and> prefix (trace w @
             [Repo_open ''.'',
              Git_push_delete (REMOTE E) v, Repo_delete_tag v,
              Git_add ''manifest.json'', Git_add ''manifest-beta.json'',
              Git_commit (''version: bump the version to '' @ v),
              Git_push (vt = ''force'')])
           (trace (snd (main E vt w)))"
proof (intro conjI impI)
  assume "raises E (Git_push_delete (REMOTE E) tag_name) \<in> {None, Some GitCommandError} \<and>
          raises E (Repo_delete_tag tag_name) \<in> {None, Some GitCommandError}"
  then show "delete_tag E tag_name w0 =
              (Inr (), w0\<lparr>trace := trace w0 @
                 [Git_push_delete (REMOTE E) tag_name, Repo_delete_tag tag_name]\<rparr>)"
    by (intro delete_tag_swallows) simp_all
next
  show "prefix (trace w @
             [Repo_open ''.'',
              Git_push_delete (REMOTE E) v, Repo_delete_tag v,
              Git_add ''manifest.json'', Git_add ''manifest-beta.json'',
              Git_commit (''version: bump the version to '' @ v),
              Git_push (vt = ''force'')])
           (trace (snd (main E vt w)))"
    unfolding main_manifests [OF assms(1-9)]
    using after_manifests_reaches_push [OF assms(10,11), where vt = vt and w = "w\<lparr>trace := trace w @ [Repo_open ''.''],
          files := (files w)
           (''manifest-beta.json'' \<mapsto> json_dumps (JObj (AList.update ''version'' (JStr v) kb)) 2,
            ''manifest.json'' \<mapsto> json_dumps (JObj (AList.update ''version'' (JStr v) kp)) 2)\<rparr>"]
    by simp
qed

theorem git_command_errors_swallowed_witness:
  \<open>raises failing_git_env (Git_push_delete ''upstream'' ''1.3.0'') = Some GitCommandError
   \<and> raises failing_git_env (Repo_delete_tag ''1.3.0'') = Some GitCommandError
   \<and> raises failing_git_env (Git_commit ''version: bump the version to 1.3.0'')
       = Some GitCommandError
   \<and> delete_tag failing_git_env ''1.3.0''
        (example_world ''{"version": "1.2.3", "name": "relay"}'' ''{"version": "1.0.0"}'')
     = (Inr (),
        (example_world ''{"version": "1.2.3", "name": "relay"}'' ''{"version": "1.0.0"}'')
          \<lparr>trace := [Git_push_delete ''upstream'' ''1.3.0'', Repo_delete_tag ''1.3.0'']\<rparr>)
   \<and> prefix
        [Repo_open ''.'',
         Git_push_delete ''upstream'' ''1.3.0'', Repo_delete_tag ''1.3.0'',
         Git_add ''manifest.json'', Git_add ''manifest-beta.json'',
         Git_commit ''version: bump the version to 1.3.0'',
         Git_push False]
        (trace (snd (main failing_git_env ''minor''
           (example_world ''{"version": "1.2.3", "name": "relay"}'' ''{"version": "1.0.0"}''))))\<close>
proof -
  have r: "raises failing_git_env (Repo_open ''.'') = None"
    "raises failing_git_env (Git_push_delete ''upstream'' ''1.3.0'') = Some GitCommandError"
    "raises failing_git_env (Repo_delete_tag ''1.3.0'') = Some GitCommandError"
    "raises failing_git_env (Git_commit ''version: bump the version to 1.3.0'')
       = Some GitCommandError"
    by (simp_all add: failing_git_env_def)
  have sw: "\<forall>x \<in> set [Git_push_delete (REMOTE failing_git_env) ''1.3.0'', Repo_delete_tag ''1.3.0'',
                      Git_commit (''version: bump the version to '' @ ''1.3.0'')].
           raises failing_git_env x \<in> {None, Some GitCommandError}"
    by (simp add: example_env_simps r)
  have add: "\<forall>x \<in> set [Git_add ''manifest.json'', Git_add ''manifest-beta.json''].
           raises failing_git_env x = None"
    by (simp add: failing_git_env_def)
  from git_command_errors_swallowed [OF beta_relay_facts(1,3,4) example_versions(1)
      beta_relay_facts(5) example_versions(5) [symmetric] primary_100_facts(1,3) r(1) sw add,
      where tag_name = "''1.3.0''"
        and ?w0.0 = \<open>example_world ''{"version": "1.2.3", "name": "relay"}'' ''{"version": "1.0.0"}''\<close>]
  show ?thesis
    by (simp add: r example_env_simps example_world_simps)
qed

text \<open>
  C7. In a run that reaches the confirmation step, \<^verbatim>\<open>main\<close> prints the waiting line,
  sleeps 30 seconds once, asks the platform for the repository and lists its releases once,
  and ends normally with one more line: the success message if the new version is among
  the tag names of the releases, the not-found message otherwise.
\<close>

theorem release_confirmation:
  assumes "files w ''manifest-beta.json'' = Some tb" "json_loads E tb = Some (JObj kb)"
    and "map_of kb ''version'' = Some (JStr cv)"
    and "unpack_map_int (split cv (CHR ''.'')) = Inr (M, m, p)"
    and "(vt, a, b, c) \<in> {(''major'', M + 1, 0, 0), (''minor'', M, m + 1, 0),
                           (''patch'', M, m, p + 1), (''force'', M, m, p)}"
    and "v = format_version a b c"
    and "files w ''manifest.json'' = Some tp" "json_loads E tp = Some (JObj kp)"
    and "externals_succeed E vt v"
  shows "fst (main E vt w) = Inr ()
       \<and> trace (snd (main E vt w)) =
           (trace w @
             [Repo_open ''.'',
              Git_push_delete (REMOTE E) v, Repo_delete_tag v,
              Git_add ''manifest.json'', Git_add ''manifest-beta.json'',
              Git_commit (''version: bump the version to '' @ v),
              Git_push (vt = ''force''), Repo_create_tag v, Repo_remote (REMOTE E),
              Remote_push (REMOTE E) v])
           @ [Print ''Waiting for GitHub to create the release...'',
              Sleep 30,
              Github_get_repo ''no-instructions/relay'',
              Repo_get_releases ''no-instructions/relay'',
              Print (if v \<in> set (release_tags E)
                     then ''Release '' @ v @ '' created successfully.''
                     else ''Release '' @ v @ '' not found.'')]
       \<and> (last (trace (snd (main E vt w))) = Print (''Release '' @ v @ '' created successfully.'')
            \<longleftrightarrow> v \<in> set (release_tags E))
       \<and> (last (trace (snd (main E vt w))) = Print (''Release '' @ v @ '' not found.'')
            \<longleftrightarrow> v \<notin> set (release_tags E))"
  unfolding main_run [OF assms] by simp

theorem release_confirmation_witness:
  \<open>main quiet_env ''minor''
       (example_world ''{"version": "1.2.3", "name": "relay"}'' ''{"version": "1.0.0"}'')
     = (Inr (), snd (main quiet_env ''minor''
          (example_world ''{"version": "1.2.3", "name": "relay"}'' ''{"version": "1.0.0"}'')))
   \<and> trace (snd (main quiet_env ''minor''
          (example_world ''{"version": "1.2.3", "name": "relay"}'' ''{"version": "1.0.0"}'')))
     = [Repo_open ''.'',
        Git_push_delete ''origin'' ''1.3.0'', Repo_delete_tag ''1.3.0'',
        Git_add ''manifest.json'', Git_add ''manifest-beta.json'',
        Git_commit ''version: bump the version to 1.3.0'',
        Git_push False, Repo_create_tag ''1.3.0'', Repo_remote ''origin'',
        Remote_push ''origin'' ''1.3.0'',
        Print ''Waiting for GitHub to create the release...'', Sleep 30,
        Github_get_repo ''no-instructions/relay'', Repo_get_releases ''no-instructions/relay'',
        Print ''Release 1.3.0 created successfully.'']
   \<and> release_tags quiet_env = [''1.2.3'', ''1.3.0'']
   \<and> last (trace (snd (main failing_git_env ''minor''
          (example_world ''{"version": "1.2.3", "name": "relay"}'' ''{"version": "1.0.0"}''))))
     = Print ''Release 1.3.0 not found.''
   \<and> release_tags failing_git_env = []\<close>
proof -
  have t: "release_tags quiet_env = [''1.2.3'', ''1.3.0'']" "release_tags failing_git_env = []"
    by (simp_all add: quiet_env_def failing_git_env_def)
  from release_confirmation [OF beta_relay_facts(1,2,4) example_versions(1)
      beta_relay_facts(5) example_versions(5) [symmetric] primary_100_facts(1,2) externals_quiet]
    release_confirmation [OF beta_relay_facts(1,3,4) example_versions(1)
      beta_relay_facts(5) example_versions(5) [symmetric] primary_100_facts(1,3)
      externals_failing_git]
  show ?thesis
    by (simp add: t example_env_simps example_world_simps prod_eq_iff)
qed

text \<open>
  C9. Whatever the mode, \<^verbatim>\<open>bump_version\<close> raises a \<^verbatim>\<open>ValueError\<close> whenever the
  version string does not split at its dots into exactly three parts that \<^verbatim>\<open>int\<close>
  accepts (too few parts as in \<^verbatim>\<open>1.2\<close>, too many as in \<^verbatim>\<open>1.2.3.4\<close>, or a part
  that is no integer), and then no file is written.
\<close>

theorem malformed_version_raises:
  assumes "files w file_path = Some content" "json_loads E content = Some (JObj kvs)"
    and "map_of kvs ''version'' = Some (JStr cv)"
    and "length (split cv (CHR ''.'')) \<noteq> 3
         \<or> (\<exists>part \<in> set (split cv (CHR ''.'')). \<exists>e. py_int part = Inl e)"
  shows "\<exists>ve. bump_version E file_path vt w = (Inl (ValueError ve), w)"
proof (cases "unpack_map_int (split cv (CHR ''.''))")
  case (Inl e)
  then obtain ve where "e = ValueError ve" using unpack_map_int_ValueError by blast
  with Inl show ?thesis using bump_version_unparsed [OF assms(1-3)] by blast
next
  case (Inr r)
  then obtain x y z where "unpack_map_int (split cv (CHR ''.'')) = Inr (x, y, z)"
    by (cases r) auto
  then obtain a b c where "split cv (CHR ''.'') = [a, b, c]"
    "py_int a = Inr x" "py_int b = Inr y" "py_int c = Inr z"
    unfolding unpack_map_int_Inr_iff by blast
  with assms(4) show ?thesis by auto
qed

theorem malformed_version_raises_witness:
  \<open>(\<exists>ve. bump_version quiet_env ''manifest-beta.json'' ''patch''
            (example_world ''{"version": "1.2"}'' ''{"version": "1.0.0"}'')
          = (Inl (ValueError ve), example_world ''{"version": "1.2"}'' ''{"version": "1.0.0"}''))
   \<and> (\<exists>ve. bump_version quiet_env ''manifest-beta.json'' ''force''
            (example_world ''{"version": "1.2.3.4"}'' ''{"version": "1.0.0"}'')
          = (Inl (ValueError ve), example_world ''{"version": "1.2.3.4"}'' ''{"version": "1.0.0"}''))\<close>
proof -
  let ?w = \<open>example_world ''{"version": "1.2"}'' ''{"version": "1.0.0"}''\<close>
  let ?u = \<open>example_world ''{"version": "1.2.3.4"}'' ''{"version": "1.0.0"}''\<close>
  have w1: \<open>files ?w ''manifest-beta.json'' = Some ''{"version": "1.2"}''\<close>
    and u1: \<open>files ?u ''manifest-beta.json'' = Some ''{"version": "1.2.3.4"}''\<close>
    by (simp_all add: example_world_simps)
  have w2: \<open>json_loads quiet_env ''{"version": "1.2"}'' = Some (JObj [(''version'', JStr ''1.2'')])\<close>
    and u2: \<open>json_loads quiet_env ''{"version": "1.2.3.4"}''
               = Some (JObj [(''version'', JStr ''1.2.3.4'')])\<close>
    by (simp_all add: example_env_simps example_docs_simps)
  have w3: "map_of [(''version'', JStr ''1.2'')] ''version'' = Some (JStr ''1.2'')"
    and u3: "map_of [(''version'', JStr ''1.2.3.4'')] ''version'' = Some (JStr ''1.2.3.4'')"
    by simp_all
  have "length (split ''1.2'' (CHR ''.'')) = 2" "length (split ''1.2.3.4'' (CHR ''.'')) = 4"
    by code_simp+
  then have w4: "length (split ''1.2'' (CHR ''.'')) \<noteq> 3
         \<or> (\<exists>part \<in> set (split ''1.2'' (CHR ''.'')). \<exists>e. py_int part = Inl e)"
    and u4: "length (split ''1.2.3.4'' (CHR ''.'')) \<noteq> 3
         \<or> (\<exists>part \<in> set (split ''1.2.3.4'' (CHR ''.'')). \<exists>e. py_int part = Inl e)"
    by simp_all
  show ?thesis
    using malformed_version_raises [OF w1 w2 w3 w4, of "''patch''"]
      malformed_version_raises [OF u1 u2 u3 u4, of "''force''"]
    by blast
qed

text \<open>
  C10. Version components are not checked for sign: when the major or the minor
  component of the beta manifest's version is negative, \<^verbatim>\<open>bump_version\<close> in mode
  patch succeeds, and the bumped version, which still carries the minus sign, is written
  to both manifests by the first two steps of \<^verbatim>\<open>main\<close>, whatever the later git
  steps of the run do.
\<close>

theorem negative_components_accepted:
  assumes "files w ''manifest-beta.json'' = Some tb" "json_loads E tb = Some (JObj kb)"
    and "map_of kb ''version'' = Some (JStr cv)"
    and "unpack_map_int (split cv (CHR ''.'')) = Inr (M, m, p)"
    and "M < 0 \<or> m < 0"
    and "files w ''manifest.json'' = Some tp" "json_loads E tp = Some (JObj kp)"
    and "raises E (Repo_open ''.'') = None"
  shows "bump_version E ''manifest-beta.json'' ''patch'' w =
           (Inr (format_version M m (p + 1)),
            w\<lparr>files := (files w)(''manifest-beta.json'' \<mapsto>
                 json_dumps (JObj (AList.update ''version'' (JStr (format_version M m (p + 1))) kb)) 2)\<rparr>)
       \<and> files (snd (main E ''patch'' w)) =
           (files w)
             (''manifest-beta.json'' \<mapsto>
                json_dumps (JObj (AList.update ''version'' (JStr (format_version M m (p + 1))) kb)) 2,
              ''manifest.json'' \<mapsto>
                json_dumps (JObj (AList.update ''version'' (JStr (format_version M m (p + 1))) kp)) 2)
       \<and> CHR ''-'' \<in> set (format_version M m (p + 1))"
proof -
  have mode: "(''patch'', M, m, p + 1) \<in> {(''major'', M + 1, 0, 0), (''minor'', M, m + 1, 0),
                           (''patch'', M, m, p + 1), (''force'', M, m, p)}"
    by simp
  have kept: "files (snd (after_manifests E ''patch'' v u)) = files u" for v u
    using files_kept_after_manifests unfolding files_kept_def by blast
  have "CHR ''-'' \<in> set (format_version M m (p + 1))"
    using assms(5) py_str_negative [of M] py_str_negative [of m]
    by (auto simp: format_version_def)
  then show ?thesis
    using bump_version_ok [OF assms(1-4) mode]
    unfolding main_manifests [OF assms(1-4) mode refl assms(6-8)] kept by simp
qed

theorem negative_components_accepted_witness:
  \<open>bump_version dash_refusing_env ''manifest-beta.json'' ''patch''
       (example_world ''{"version": "-1.2.3"}'' ''{"version": "1.0.0"}'')
     = (Inr ''-1.2.4'',
        (example_world ''{"version": "-1.2.3"}'' ''{"version": "1.0.0"}'')
          \<lparr>files := (files (example_world ''{"version": "-1.2.3"}'' ''{"version": "1.0.0"}''))
             (''manifest-beta.json'' \<mapsto> ''{\<newline>  "version": "-1.2.4"\<newline>}'')\<rparr>)
   \<and> files (snd (main dash_refusing_env ''patch''
                   (example_world ''{"version": "-1.2.3"}'' ''{"version": "1.0.0"}'')))
     = [''manifest-beta.json'' \<mapsto> ''{\<newline>  "version": "-1.2.4"\<newline>}'',
        ''manifest.json'' \<mapsto> ''{\<newline>  "version": "-1.2.4"\<newline>}'']
   \<and> raises dash_refusing_env (Repo_create_tag ''-1.2.4'') = Some GitCommandError
   \<and> fst (main dash_refusing_env ''patch''
            (example_world ''{"version": "-1.2.3"}'' ''{"version": "1.0.0"}''))
     = Inl GitCommandError\<close>
proof -
  let ?w = \<open>example_world ''{"version": "-1.2.3"}'' ''{"version": "1.0.0"}''\<close>
  have l: "json_loads dash_refusing_env = map_of example_docs"
    by (simp add: dash_refusing_env_def)
  have 1: \<open>files ?w ''manifest-beta.json'' = Some ''{"version": "-1.2.3"}''\<close>
    and 6: \<open>files ?w ''manifest.json'' = Some ''{"version": "1.0.0"}''\<close>
    by (simp_all add: example_world_simps)
  have 2: \<open>json_loads dash_refusing_env ''{"version": "-1.2.3"}''
             = Some (JObj [(''version'', JStr ''-1.2.3'')])\<close>
    and 7: \<open>json_loads dash_refusing_env ''{"version": "1.0.0"}''
             = Some (JObj [(''version'', JStr ''1.0.0'')])\<close>
    by (simp_all add: l example_docs_simps)
  have 3: "map_of [(''version'', JStr ''-1.2.3'')] ''version'' = Some (JStr ''-1.2.3'')"
    by simp
  have 5: "(- 1 :: int) < 0 \<or> (2 :: int) < 0"
    by simp
  have 8: "raises dash_refusing_env (Repo_open ''.'') = None"
    by (simp add: dash_refusing_env_def)
  have v: "format_version (- 1) 2 (3 + 1) = ''-1.2.4''"
    using example_versions(6) by simp
  have u: "AList.update ''version'' (JStr ''-1.2.4'') [(''version'', JStr y)]
           = [(''version'', JStr ''-1.2.4'')]" for y
    by simp
  note T = negative_components_accepted [OF 1 2 3 example_versions(2) 5 6 7 8,
      unfolded v u example_texts]
  have f: "(files (example_world tb tp))(''manifest-beta.json'' \<mapsto> x, ''manifest.json'' \<mapsto> y)
      = [''manifest-beta.json'' \<mapsto> x, ''manifest.json'' \<mapsto> y]" for tb tp x y
    by (simp add: example_world_def fun_eq_iff)
  have c: "raises dash_refusing_env (Repo_create_tag ''-1.2.4'') = Some GitCommandError"
    by (simp add: dash_refusing_env_def)
  have r: \<open>fst (main dash_refusing_env ''patch'' ?w) = Inl GitCommandError\<close>
    by code_simp
  from T c r show ?thesis
    unfolding f by simp
qed

section \<open>Claims about the watcher\<close>

text \<open>
  C8. For every event the watcher receives it prints the line
  \<^verbatim>\<open>Modified file: <path>/<filename>\<close> if \<^verbatim>\<open>IN_MODIFY\<close> is among the event's type
  names and prints nothing otherwise: after the line announcing the directory, the output
  is one such line for each event with \<^verbatim>\<open>IN_MODIFY\<close>, in the order of the events.
\<close>

theorem watcher_prints_modified_only:
  "watch_main directory (events @ [(h, type_names, path, filename)]) =
     watch_main directory events @
       (if ''IN_MODIFY'' \<in> set type_names
        then [''Modified file: '' @ path @ ''/'' @ filename] else [])
   \<and> watch_main directory events =
       (''Listening for changes in: '' @ directory) #
       map (\<lambda>(h, type_names, path, filename). ''Modified file: '' @ path @ ''/'' @ filename)
           (filter (\<lambda>(h, type_names, path, filename). ''IN_MODIFY'' \<in> set type_names) events)"
  by (simp add: watch_main_def event_loop_eq)

theorem watcher_prints_modified_only_witness:
  "watch_main ''/srv/notes''
     [((), [''IN_CREATE''], ''/srv/notes'', ''new.txt''),
      ((), [''IN_MODIFY''], ''/srv/notes'', ''x.txt''),
      ((), [''IN_DELETE''], ''/srv/notes'', ''old.txt''),
      ((), [''IN_MOVED_FROM''], ''/srv/notes'', ''a.txt'')]
   = [''Listening for changes in: /srv/notes'', ''Modified file: /srv/notes/x.txt'']"
  using watcher_prints_modified_only
    [of "''/srv/notes''"
        "[((), [''IN_CREATE''], ''/srv/notes'', ''new.txt''),
          ((), [''IN_MODIFY''], ''/srv/notes'', ''x.txt''),
          ((), [''IN_DELETE''], ''/srv/notes'', ''old.txt'')]"
        "()" "[''IN_MOVED_FROM'']" "''/srv/notes''" "''a.txt''"]
  by simp

end
